theory Spec2Isabelle
  imports Complex_Main "HOL-Library.Sublist"
begin

section \<open>Strings of the client code\<close>

text \<open>
  Strings are lists of 8-bit characters, read as the code points U+0000 to U+00FF.
  The functions below are the JavaScript string methods the pages call, restricted to
  these code points.
\<close>

definition isWhiteSpace :: "char \<Rightarrow> bool" where
  \<comment> \<open>the white space and line terminator code points that \<open>String.prototype.trim\<close> strips\<close>
  "isWhiteSpace c = (of_char c \<in> {9, 10, 11, 12, 13, 32, 160 :: nat})"

definition trim :: "string \<Rightarrow> string" where
  "trim s = rev (dropWhile isWhiteSpace (rev (dropWhile isWhiteSpace s)))"

definition isUpperCase :: "char \<Rightarrow> bool" where
  \<comment> \<open>A to Z, and the capital letters of the Latin-1 block (U+00D7 is the multiplication sign)\<close>
  "isUpperCase c =
     (let n = (of_char c :: nat)
      in (65 \<le> n \<and> n \<le> 90) \<or> (192 \<le> n \<and> n \<le> 222 \<and> n \<noteq> 215))"

definition toLowerCase_char :: "char \<Rightarrow> char" where
  \<comment> \<open>the small letter is 32 above the capital one; bit 5 of every capital is clear\<close>
  "toLowerCase_char c =
     (if isUpperCase c
      then Char (digit0 c) (digit1 c) (digit2 c) (digit3 c) (digit4 c) True (digit6 c) (digit7 c)
      else c)"

definition toLowerCase :: "string \<Rightarrow> string" where
  "toLowerCase s = map toLowerCase_char s"

fun includes_str :: "string \<Rightarrow> string \<Rightarrow> bool" where
  \<comment> \<open>\<open>s.includes(sub)\<close>\<close>
  "includes_str [] sub = (sub = [])"
| "includes_str (c # s) sub = (prefix sub (c # s) \<or> includes_str s sub)"

definition startsWith :: "string \<Rightarrow> string \<Rightarrow> bool" where
  "startsWith s p = prefix p s"

definition or_null :: "string \<Rightarrow> string option" where
  \<comment> \<open>\<open>s || null\<close>: the empty string is falsy\<close>
  "or_null s = (if s = [] then None else Some s)"

section \<open>Pattern matching of the store\<close>

text \<open>
  \<open>like s p\<close> is the SQL predicate \<open>s LIKE p\<close>: a percent sign in the pattern stands for
  any sequence of characters, an underscore for any one character, and a backslash takes
  the character after it literally. A pattern that ends in a lone backslash matches
  nothing here (the store rejects it; the patterns built below end in a percent sign).
  \<open>ilike\<close> compares without regard to case.
\<close>

fun like :: "string \<Rightarrow> string \<Rightarrow> bool" where
  "like s [] = (s = [])"
| "like s (p # ps) =
     (if p = CHR ''%'' then
        (like s ps \<or> (case s of [] \<Rightarrow> False | c # s' \<Rightarrow> like s' (p # ps)))
      else if p = CHR ''_'' then
        (case s of [] \<Rightarrow> False | c # s' \<Rightarrow> like s' ps)
      else if p = CHR 0x5C then
        (case ps of [] \<Rightarrow> False
         | q # qs \<Rightarrow> (case s of [] \<Rightarrow> False | c # s' \<Rightarrow> c = q \<and> like s' qs))
      else (case s of [] \<Rightarrow> False | c # s' \<Rightarrow> c = p \<and> like s' ps))"

definition ilike :: "string \<Rightarrow> string \<Rightarrow> bool" where
  "ilike s p = like (toLowerCase s) (toLowerCase p)"

definition star_to_percent :: "string \<Rightarrow> string" where
  \<comment> \<open>the REST layer of the store reads an asterisk in a like/ilike value as a percent sign\<close>
  "star_to_percent p = map (\<lambda>c. if c = CHR ''*'' then CHR ''%'' else c) p"

section \<open>Tables, policies and the trigger of the migrations\<close>

type_synonym uuid = string
type_synonym timestamptz = nat

datatype task_status = Pending | Completed

text \<open>The columns that \<open>public.tasks\<close> and \<open>public.profiles\<close> share, then each table.\<close>

record row =
  row_id :: uuid
  user_id :: uuid
  created_at :: timestamptz
  updated_at :: timestamptz

record tasks_row = row +
  title :: string
  description :: "string option"
  status :: task_status

record profiles_row = row +
  name :: "string option"
  avatar_url :: "string option"

datatype store_error =
    RlsViolation
  | UniqueViolation
  | TransientError

definition auth_uid_is_user_id :: "uuid option \<Rightarrow> 'a row_scheme \<Rightarrow> bool" where
  \<comment> \<open>the expression \<open>auth.uid() = user_id\<close> of every policy of both tables; the comparison
      with a null \<open>auth.uid()\<close> is not true\<close>
  "auth_uid_is_user_id auth_uid r = (auth_uid = Some (user_id r))"

definition update_updated_at_column :: "timestamptz \<Rightarrow> 'a row_scheme \<Rightarrow> 'a row_scheme" where
  \<comment> \<open>\<open>new.updated_at = now(); return new;\<close>\<close>
  "update_updated_at_column now new = new\<lparr>updated_at := now\<rparr>"

definition tasks_select :: "uuid option \<Rightarrow> tasks_row list \<Rightarrow> tasks_row list" where
  \<comment> \<open>a select on \<open>public.tasks\<close> under the policy "Users can view their own tasks"\<close>
  "tasks_select auth_uid tbl = filter (auth_uid_is_user_id auth_uid) tbl"

section \<open>The dashboard: listing tasks\<close>

datatype status_filter = All | Only task_status

text \<open>The \<open>Task\<close> interface of the dashboard: the columns the list query selects.\<close>

record Task =
  t_id :: uuid
  t_title :: string
  t_description :: "string option"
  t_status :: task_status
  t_created_at :: timestamptz

record query_result =
  data :: "Task list"
  count :: nat

definition pageSize :: nat where
  "pageSize = 10"

definition select_cols :: "tasks_row \<Rightarrow> Task" where
  \<comment> \<open>\<open>select("id, title, description, status, created_at")\<close>\<close>
  "select_cols r =
     \<lparr>t_id = row_id r, t_title = title r, t_description = description r,
      t_status = status r, t_created_at = created_at r\<rparr>"

definition order_created_at_desc :: "tasks_row list \<Rightarrow> tasks_row list" where
  \<comment> \<open>\<open>order("created_at", { ascending: false })\<close>\<close>
  "order_created_at_desc rows = sort_key (\<lambda>r. - int (created_at r)) rows"

definition range_rows :: "nat \<Rightarrow> nat \<Rightarrow> 'a list \<Rightarrow> 'a list" where
  \<comment> \<open>\<open>range(from, to)\<close>: the rows at the offsets from..to, both included\<close>
  "range_rows from to rows = take (Suc to - from) (drop from rows)"

definition matching :: "uuid option \<Rightarrow> status_filter \<Rightarrow> string \<Rightarrow> tasks_row list \<Rightarrow> tasks_row list" where
  \<comment> \<open>the rows the list query of \<open>Index.tsx\<close> selects before \<open>range\<close>: the filters of
      \<open>queryFn\<close> in its order. The text given to \<open>or\<close> is read by the REST layer of the
      store as two \<open>ilike\<close> conditions when the search text holds no comma, parenthesis or
      double quote; the embedding is that reading\<close>
  "matching auth_uid statusFilter search tbl =
     (let query = order_created_at_desc (tasks_select auth_uid tbl);
          query = (case statusFilter of
                     All \<Rightarrow> query
                   | Only s \<Rightarrow> filter (\<lambda>r. status r = s) query);
          query = (if trim search \<noteq> [] then
                     (let searchValue = star_to_percent (''%'' @ trim search @ ''%'')
                      in filter (\<lambda>r. ilike (title r) searchValue \<or>
                                      (case description r of
                                         None \<Rightarrow> False
                                       | Some d \<Rightarrow> ilike d searchValue)) query)
                   else query)
      in query)"

definition queryFn ::
  "bool \<Rightarrow> uuid option \<Rightarrow> nat \<Rightarrow> status_filter \<Rightarrow> string \<Rightarrow> tasks_row list
     \<Rightarrow> store_error + query_result" where
  \<comment> \<open>\<open>net_ok\<close> is whether the request reaches the store and its answer comes back;
      the page is a state of the component that starts at 1 and never goes below\<close>
  "queryFn net_ok auth_uid page statusFilter search tbl =
     (let query = matching auth_uid statusFilter search tbl;
          from = (page - 1) * pageSize;
          to = from + pageSize - 1
      in if \<not> net_ok then Inl TransientError
         else Inr \<lparr>data = map select_cols (range_rows from to query), count = length query\<rparr>)"

definition filteredTasks :: "Task list \<Rightarrow> Task list" where
  \<comment> \<open>\<open>Index.tsx\<close>: the store has filtered already\<close>
  "filteredTasks ts = ts"

text \<open>
  The earlier dashboard (\<open>part_001\<close>) fetches all the tasks the policy lets through and
  filters them in the page.
\<close>

definition queryFn_part_001 ::
  "bool \<Rightarrow> uuid option \<Rightarrow> tasks_row list \<Rightarrow> store_error + Task list" where
  "queryFn_part_001 net_ok auth_uid tbl =
     (if \<not> net_ok then Inl TransientError
      else Inr (map select_cols (order_created_at_desc (tasks_select auth_uid tbl))))"

definition filteredTasks_part_001 :: "Task list \<Rightarrow> string \<Rightarrow> status_filter \<Rightarrow> Task list" where
  "filteredTasks_part_001 ts search statusFilter =
     filter (\<lambda>task.
        let matchesSearch =
              (length (trim search) = 0 \<or>
               includes_str (toLowerCase (t_title task)) (toLowerCase search) \<or>
               includes_str
                 (toLowerCase (case t_description task of None \<Rightarrow> [] | Some d \<Rightarrow> d))
                 (toLowerCase search));
            matchesStatus = (statusFilter = All \<or> Only (t_status task) = statusFilter)
        in matchesSearch \<and> matchesStatus) ts"

definition tasksData ::
  "bool \<Rightarrow> uuid option \<Rightarrow> nat \<Rightarrow> status_filter \<Rightarrow> string \<Rightarrow> tasks_row list
     \<Rightarrow> query_result option" where
  \<comment> \<open>the data of the query: undefined (\<open>None\<close>) when the query is not enabled
      (\<open>enabled: !!user\<close>) or has failed\<close>
  "tasksData net_ok user page statusFilter search tbl =
     (case user of
        None \<Rightarrow> None
      | Some uid \<Rightarrow>
          (case queryFn net_ok user page statusFilter search tbl of
             Inl e \<Rightarrow> None
           | Inr d \<Rightarrow> Some d))"

definition tasks :: "query_result option \<Rightarrow> Task list" where
  \<comment> \<open>\<open>tasksData?.data ?? []\<close>\<close>
  "tasks d = (case d of None \<Rightarrow> [] | Some d \<Rightarrow> data d)"

definition totalCount :: "query_result option \<Rightarrow> nat" where
  \<comment> \<open>\<open>tasksData?.count ?? 0\<close>\<close>
  "totalCount d = (case d of None \<Rightarrow> 0 | Some d \<Rightarrow> count d)"

definition pageCount :: "nat \<Rightarrow> nat" where
  \<comment> \<open>\<open>Math.max(1, Math.ceil(totalCount / pageSize))\<close>; the quotient of a count by 10 in
      double precision has the ceiling of the exact quotient\<close>
  "pageCount total_count = max 1 (nat \<lceil>real total_count / real pageSize\<rceil>)"

section \<open>The profile page: task counts\<close>

record TaskCountRow =
  tc_status :: task_status
  tc_count :: nat

text \<open>
  The \<open>summary\<close> object: its keys in the order they were first written, each with its
  number.
\<close>

type_synonym summary = "(task_status \<times> nat) list"

fun summary_incr :: "summary \<Rightarrow> task_status \<Rightarrow> summary" where
  \<comment> \<open>\<open>summary[row.status] = (summary[row.status] ?? 0) + 1\<close>\<close>
  "summary_incr [] k = [(k, 0 + 1)]"
| "summary_incr ((k', n) # rest) k =
     (if k' = k then (k', n + 1) # rest else (k', n) # summary_incr rest k)"

definition task_counts_queryFn ::
  "bool \<Rightarrow> uuid option \<Rightarrow> tasks_row list \<Rightarrow> store_error + TaskCountRow list" where
  \<comment> \<open>the session of the request is the session \<open>user\<close> comes from: \<open>auth.uid()\<close> is
      the id of \<open>user\<close>\<close>
  "task_counts_queryFn net_ok user tbl =
     (case user of
        None \<Rightarrow> Inr []
      | Some uid \<Rightarrow>
          if \<not> net_ok then Inl TransientError
          else
            (let rows = map (\<lambda>r. (status r, row_id r))
                          (filter (\<lambda>r. user_id r = uid)
                             (filter (auth_uid_is_user_id (Some uid)) tbl));
                 summary = foldl (\<lambda>summary row. summary_incr summary (fst row)) [] rows
             in Inr (map (\<lambda>(status, count). \<lparr>tc_status = status, tc_count = count\<rparr>) summary)))"

definition counts_or_default :: "TaskCountRow list option \<Rightarrow> TaskCountRow list" where
  \<comment> \<open>\<open>data: counts = []\<close>: the empty list while the query has no result\<close>
  "counts_or_default d = (case d of None \<Rightarrow> [] | Some counts \<Rightarrow> counts)"

definition totalTasks :: "TaskCountRow list \<Rightarrow> nat" where
  "totalTasks counts = foldl (\<lambda>sum row. sum + tc_count row) 0 counts"

definition completedTasks :: "TaskCountRow list \<Rightarrow> nat" where
  "completedTasks counts =
     (case find (\<lambda>row. tc_status row = Completed) counts of
        None \<Rightarrow> 0
      | Some row \<Rightarrow> tc_count row)"

definition pendingTasks :: "TaskCountRow list \<Rightarrow> nat" where
  "pendingTasks counts =
     (case find (\<lambda>row. tc_status row = Pending) counts of
        None \<Rightarrow> 0
      | Some row \<Rightarrow> tc_count row)"

section \<open>Writes to the tables\<close>

text \<open>
  Every write takes \<open>net_ok\<close> (whether the request reaches the store and its answer comes
  back), \<open>auth_uid\<close> (the identity of the session of the request, if any), and where the
  store fills in defaults, \<open>now\<close> for \<open>now()\<close> and \<open>new_id\<close> for \<open>gen_random_uuid()\<close>.
\<close>

record tasks_insert_values =
  ins_title :: string
  ins_description :: "string option"
  ins_status :: task_status
  ins_user_id :: "uuid option"

definition tasks_insert ::
  "bool \<Rightarrow> uuid option \<Rightarrow> tasks_insert_values \<Rightarrow> timestamptz \<Rightarrow> uuid \<Rightarrow> tasks_row list
     \<Rightarrow> store_error + tasks_row list" where
  \<comment> \<open>the policy "Users can create their own tasks" checks the proposed row, then the
      primary key\<close>
  "tasks_insert net_ok auth_uid vals now new_id tbl =
     (if \<not> net_ok then Inl TransientError
      else case ins_user_id vals of
        None \<Rightarrow> Inl RlsViolation
      | Some uid \<Rightarrow>
          if auth_uid \<noteq> Some uid then Inl RlsViolation
          else if new_id \<in> set (map row_id tbl) then Inl UniqueViolation
          else Inr (tbl @ [\<lparr>row_id = new_id, user_id = uid, created_at = now, updated_at = now,
                            title = ins_title vals, description = ins_description vals,
                            status = ins_status vals\<rparr>]))"

definition tasks_delete ::
  "bool \<Rightarrow> uuid option \<Rightarrow> (tasks_row \<Rightarrow> bool) \<Rightarrow> tasks_row list \<Rightarrow> store_error + tasks_row list" where
  \<comment> \<open>the rows that the policy "Users can delete their own tasks" lets through and that
      meet the condition go; removing no row is no error\<close>
  "tasks_delete net_ok auth_uid cond tbl =
     (if \<not> net_ok then Inl TransientError
      else Inr (filter (\<lambda>r. \<not> (auth_uid_is_user_id auth_uid r \<and> cond r)) tbl))"

text \<open>
  The columns an update names, each with its new value; \<open>None\<close> for a column it does not
  name. A request that names no column runs no update.
\<close>

record row_set =
  set_updated_at :: "timestamptz option"

record tasks_set = row_set +
  set_title :: "string option"
  set_description :: "string option option"
  set_status :: "task_status option"

record profiles_set = row_set +
  set_name :: "string option option"
  set_avatar_url :: "string option option"

definition tasks_apply_set :: "tasks_set \<Rightarrow> tasks_row \<Rightarrow> tasks_row" where
  "tasks_apply_set vals r =
     r\<lparr>updated_at := (case set_updated_at vals of None \<Rightarrow> updated_at r | Some v \<Rightarrow> v),
       title := (case set_title vals of None \<Rightarrow> title r | Some v \<Rightarrow> v),
       description := (case set_description vals of None \<Rightarrow> description r | Some v \<Rightarrow> v),
       status := (case set_status vals of None \<Rightarrow> status r | Some v \<Rightarrow> v)\<rparr>"

definition profiles_apply_set :: "profiles_set \<Rightarrow> profiles_row \<Rightarrow> profiles_row" where
  "profiles_apply_set vals r =
     r\<lparr>updated_at := (case set_updated_at vals of None \<Rightarrow> updated_at r | Some v \<Rightarrow> v),
       name := (case set_name vals of None \<Rightarrow> name r | Some v \<Rightarrow> v),
       avatar_url := (case set_avatar_url vals of None \<Rightarrow> avatar_url r | Some v \<Rightarrow> v)\<rparr>"

definition tasks_set_names_column :: "tasks_set \<Rightarrow> bool" where
  "tasks_set_names_column vals =
     (set_updated_at vals \<noteq> None \<or> set_title vals \<noteq> None \<or> set_description vals \<noteq> None
      \<or> set_status vals \<noteq> None)"

definition profiles_set_names_column :: "profiles_set \<Rightarrow> bool" where
  "profiles_set_names_column vals =
     (set_updated_at vals \<noteq> None \<or> set_name vals \<noteq> None \<or> set_avatar_url vals \<noteq> None)"

definition tasks_update ::
  "bool \<Rightarrow> uuid option \<Rightarrow> tasks_set \<Rightarrow> (tasks_row \<Rightarrow> bool) \<Rightarrow> timestamptz \<Rightarrow> tasks_row list
     \<Rightarrow> store_error + tasks_row list" where
  \<comment> \<open>the rows that the policy "Users can update their own tasks" lets through and that
      meet the condition get the new values; the trigger \<open>update_tasks_updated_at\<close> runs
      on each of them before it is written\<close>
  "tasks_update net_ok auth_uid vals cond now tbl =
     (if \<not> net_ok then Inl TransientError
      else if \<not> tasks_set_names_column vals then Inr tbl
      else Inr (map (\<lambda>r. if auth_uid_is_user_id auth_uid r \<and> cond r
                          then update_updated_at_column now (tasks_apply_set vals r)
                          else r) tbl))"

definition profiles_update ::
  "bool \<Rightarrow> uuid option \<Rightarrow> profiles_set \<Rightarrow> (profiles_row \<Rightarrow> bool) \<Rightarrow> timestamptz
     \<Rightarrow> profiles_row list \<Rightarrow> store_error + profiles_row list" where
  \<comment> \<open>the policy "Users can update their own profile" and the trigger
      \<open>update_profiles_updated_at\<close>\<close>
  "profiles_update net_ok auth_uid vals cond now tbl =
     (if \<not> net_ok then Inl TransientError
      else if \<not> profiles_set_names_column vals then Inr tbl
      else Inr (map (\<lambda>r. if auth_uid_is_user_id auth_uid r \<and> cond r
                          then update_updated_at_column now (profiles_apply_set vals r)
                          else r) tbl))"

record profiles_upsert_values =
  up_user_id :: uuid
  up_name :: "string option"
  up_avatar_url :: "string option"

definition profiles_upsert ::
  "bool \<Rightarrow> uuid option \<Rightarrow> profiles_upsert_values \<Rightarrow> timestamptz \<Rightarrow> uuid \<Rightarrow> profiles_row list
     \<Rightarrow> store_error + profiles_row list" where
  \<comment> \<open>an insert with \<open>on conflict (user_id) do update\<close>: the policy "Users can create
      their own profile" checks the proposed row; a row with that \<open>user_id\<close> gets the
      values of the proposed row, under the update policy and the trigger; without such a
      row the proposed row is inserted\<close>
  "profiles_upsert net_ok auth_uid vals now new_id tbl =
     (if \<not> net_ok then Inl TransientError
      else if auth_uid \<noteq> Some (up_user_id vals) then Inl RlsViolation
      else if \<exists>r \<in> set tbl. user_id r = up_user_id vals then
        Inr (map (\<lambda>r. if user_id r = up_user_id vals \<and> auth_uid_is_user_id auth_uid r
                       then update_updated_at_column now
                              (profiles_apply_set
                                 \<lparr>set_updated_at = None, set_name = Some (up_name vals),
                                  set_avatar_url = Some (up_avatar_url vals)\<rparr> r)
                       else r) tbl)
      else if new_id \<in> set (map row_id tbl) then Inl UniqueViolation
      else Inr (tbl @ [\<lparr>row_id = new_id, user_id = up_user_id vals, created_at = now,
                        updated_at = now, name = up_name vals,
                        avatar_url = up_avatar_url vals\<rparr>]))"

section \<open>The dashboard: creating, updating and deleting tasks\<close>

text \<open>
  The state of the form "Add Task". In every function of the pages \<open>user\<close> is the user of
  the session, if any; the requests of the page carry that session, so \<open>auth.uid()\<close> of
  the store is the id of \<open>user\<close>.
\<close>

record add_task_form =
  form_title :: string
  form_description :: string
  form_status :: task_status

definition createTask_mutationFn ::
  "bool \<Rightarrow> uuid option \<Rightarrow> add_task_form \<Rightarrow> timestamptz \<Rightarrow> uuid \<Rightarrow> tasks_row list
     \<Rightarrow> store_error + tasks_row list" where
  "createTask_mutationFn net_ok user form now new_id tbl =
     tasks_insert net_ok user
       \<lparr>ins_title = form_title form, ins_description = or_null (form_description form),
        ins_status = form_status form, ins_user_id = user\<rparr> now new_id tbl"

definition addTask_disabled :: "bool \<Rightarrow> add_task_form \<Rightarrow> bool" where
  \<comment> \<open>\<open>disabled={createTask.isPending || !title.trim()}\<close>\<close>
  "addTask_disabled isPending form = (isPending \<or> trim (form_title form) = [])"

definition addTask_onClick ::
  "bool \<Rightarrow> bool \<Rightarrow> uuid option \<Rightarrow> add_task_form \<Rightarrow> timestamptz \<Rightarrow> uuid \<Rightarrow> tasks_row list
     \<Rightarrow> (store_error + tasks_row list) option" where
  \<comment> \<open>a click on the button "Add Task": a disabled button runs no handler (\<open>None\<close>), an
      enabled one runs \<open>createTask.mutate()\<close>\<close>
  "addTask_onClick isPending net_ok user form now new_id tbl =
     (if addTask_disabled isPending form then None
      else Some (createTask_mutationFn net_ok user form now new_id tbl))"

record task_changes =
  ch_id :: uuid
  ch_title :: "string option"
  ch_description :: "string option option"
  ch_status :: "task_status option"

definition updateTask_mutationFn ::
  "bool \<Rightarrow> uuid option \<Rightarrow> task_changes \<Rightarrow> timestamptz \<Rightarrow> tasks_row list
     \<Rightarrow> store_error + tasks_row list" where
  \<comment> \<open>an undefined field of \<open>task\<close> is left out of the request\<close>
  "updateTask_mutationFn net_ok user task now tbl =
     tasks_update net_ok user
       \<lparr>set_updated_at = None, set_title = ch_title task,
        set_description = ch_description task, set_status = ch_status task\<rparr>
       (\<lambda>r. row_id r = ch_id task) now tbl"

definition handleToggleStatus ::
  "bool \<Rightarrow> uuid option \<Rightarrow> Task \<Rightarrow> timestamptz \<Rightarrow> tasks_row list \<Rightarrow> store_error + tasks_row list" where
  "handleToggleStatus net_ok user task now tbl =
     updateTask_mutationFn net_ok user
       \<lparr>ch_id = t_id task, ch_title = None, ch_description = None,
        ch_status = Some (if t_status task = Pending then Completed else Pending)\<rparr> now tbl"

definition deleteTask_mutationFn ::
  "bool \<Rightarrow> uuid option \<Rightarrow> uuid \<Rightarrow> tasks_row list \<Rightarrow> store_error + tasks_row list" where
  "deleteTask_mutationFn net_ok user task_id tbl =
     tasks_delete net_ok user (\<lambda>r. row_id r = task_id) tbl"

definition deleteTask_toast :: "store_error + tasks_row list \<Rightarrow> string" where
  \<comment> \<open>the title of the toast of \<open>onSuccess\<close> or of \<open>onError\<close>\<close>
  "deleteTask_toast result =
     (case result of Inr _ \<Rightarrow> ''Task deleted'' | Inl _ \<Rightarrow> ''Error deleting task'')"

section \<open>The profile page: saving the profile\<close>

record UpsertProfileArgs =
  overrideAvatarUrl :: "string option"

definition finalAvatarUrl :: "UpsertProfileArgs option \<Rightarrow> string \<Rightarrow> string" where
  \<comment> \<open>\<open>args?.overrideAvatarUrl ?? avatarUrl\<close>\<close>
  "finalAvatarUrl args avatarUrl_input =
     (case (case args of None \<Rightarrow> None | Some a \<Rightarrow> overrideAvatarUrl a) of
        None \<Rightarrow> avatarUrl_input
      | Some url \<Rightarrow> url)"

definition upsertProfile_mutationFn ::
  "bool \<Rightarrow> uuid option \<Rightarrow> string \<Rightarrow> string \<Rightarrow> UpsertProfileArgs option \<Rightarrow> timestamptz \<Rightarrow> uuid
     \<Rightarrow> profiles_row list \<Rightarrow> store_error + profiles_row list" where
  \<comment> \<open>\<open>name_input\<close> and \<open>avatarUrl_input\<close> are the states \<open>name\<close> and \<open>avatarUrl\<close> of the page\<close>
  "upsertProfile_mutationFn net_ok user name_input avatarUrl_input args now new_id tbl =
     (case user of
        None \<Rightarrow> Inr tbl
      | Some uid \<Rightarrow>
          profiles_upsert net_ok user
            \<lparr>up_user_id = uid, up_name = or_null name_input,
             up_avatar_url = or_null (finalAvatarUrl args avatarUrl_input)\<rparr> now new_id tbl)"

definition upsertProfile_toast :: "store_error + profiles_row list \<Rightarrow> string" where
  \<comment> \<open>the title of the toast of \<open>onSuccess\<close> or of \<open>onError\<close>\<close>
  "upsertProfile_toast result =
     (case result of Inr _ \<Rightarrow> ''Profile updated'' | Inl _ \<Rightarrow> ''Could not update profile'')"

section \<open>The profile page: uploading an avatar\<close>

text \<open>
  The file the input hands over, the requests the handler sends (in order), and the states
  of the page the handler writes. \<open>now\<close> is \<open>Date.now()\<close>, \<open>upload_ok\<close> and \<open>upsert_ok\<close> are
  whether the upload and the profile upsert succeed, and \<open>storage_url\<close> is the address of
  the storage service, part of the configuration of the client.
\<close>

record File =
  file_name :: string
  file_size :: nat
  file_type :: string

datatype request =
    StorageUpload string
  | ProfilesUpsert string

record avatar_state =
  uploadError :: "string option"
  isUploadingAvatar :: bool
  avatarUrl :: string
  requests :: "request list"

fun digits :: "nat \<Rightarrow> string" where
  \<comment> \<open>a number in a template string: its decimal digits\<close>
  "digits n =
     (if n < 10 then [''0123456789'' ! n]
      else digits (n div 10) @ [''0123456789'' ! (n mod 10)])"

definition split_dot_pop :: "string \<Rightarrow> string" where
  \<comment> \<open>\<open>s.split(".").pop()\<close>: the text after the last dot, the whole text without a dot\<close>
  "split_dot_pop s = rev (takeWhile (\<lambda>c. c \<noteq> CHR ''.'') (rev s))"

definition uri_unescaped :: "char \<Rightarrow> bool" where
  \<comment> \<open>the characters \<open>encodeURI\<close> leaves as they are: letters, digits, and
      \<open>; , / ? : @ & = + $ - _ . ! ~ * ' ( ) #\<close>\<close>
  "uri_unescaped c =
     (c \<in> set (''ABCDEFGHIJKLMNOPQRSTUVWXYZabcdefghijklmnopqrstuvwxyz0123456789''
                @ '';,/?:@&=+$-_.!~*()#'' @ [CHR 0x27]))"

definition hex2 :: "nat \<Rightarrow> string" where
  \<comment> \<open>a byte as two hexadecimal digits\<close>
  "hex2 n = [''0123456789ABCDEF'' ! (n div 16), ''0123456789ABCDEF'' ! (n mod 16)]"

definition encodeURI_char :: "char \<Rightarrow> string" where
  \<comment> \<open>any other character is written as the bytes of its UTF-8 encoding, each after a
      percent sign: one byte below U+0080, two bytes from U+0080 to U+00FF\<close>
  "encodeURI_char c =
     (let n = (of_char c :: nat)
      in if uri_unescaped c then [c]
         else if n < 128 then CHR ''%'' # hex2 n
         else CHR ''%'' # hex2 (192 + n div 64) @ CHR ''%'' # hex2 (128 + n mod 64))"

definition encodeURI :: "string \<Rightarrow> string" where
  "encodeURI s = concat (map encodeURI_char s)"

definition getPublicUrl :: "string \<Rightarrow> string \<Rightarrow> string" where
  \<comment> \<open>\<open>supabase.storage.from("avatars").getPublicUrl(filePath)\<close>: built in the client,
      no request; the client library returns \<open>encodeURI\<close> of the address\<close>
  "getPublicUrl storage_url filePath =
     encodeURI (storage_url @ ''/object/public/avatars/'' @ filePath)"

definition avatar_onChange ::
  "File option \<Rightarrow> uuid option \<Rightarrow> nat \<Rightarrow> bool \<Rightarrow> bool \<Rightarrow> string \<Rightarrow> avatar_state \<Rightarrow> avatar_state" where
  \<comment> \<open>the handler of the file input of \<open>Profile.tsx\<close>; when the awaited upsert fails the
      handler ends there\<close>
  "avatar_onChange file user now upload_ok upsert_ok storage_url st =
     (case file of
        None \<Rightarrow> st
      | Some f \<Rightarrow>
          (case user of
             None \<Rightarrow> st
           | Some uid \<Rightarrow>
               (let st = st\<lparr>uploadError := None, isUploadingAvatar := True\<rparr>;
                    fileExt = split_dot_pop (file_name f);
                    fileName = uid @ ''-'' @ digits now @ ''.'' @ fileExt;
                    filePath = uid @ ''/'' @ fileName;
                    st = st\<lparr>requests := requests st @ [StorageUpload filePath]\<rparr>
                in if \<not> upload_ok then
                     st\<lparr>isUploadingAvatar := False,
                        uploadError := Some ''Could not upload avatar. Please try again.''\<rparr>
                   else
                     (let publicUrl = getPublicUrl storage_url filePath;
                          st = st\<lparr>avatarUrl := publicUrl,
                                  requests := requests st @ [ProfilesUpsert publicUrl]\<rparr>
                      in if \<not> upsert_ok then st
                         else st\<lparr>isUploadingAvatar := False\<rparr>))))"

definition avatar_onChange_part_002 ::
  "File option \<Rightarrow> uuid option \<Rightarrow> nat \<Rightarrow> bool \<Rightarrow> string \<Rightarrow> avatar_state \<Rightarrow> avatar_state" where
  \<comment> \<open>the handler of the file input of the other profile page (\<open>part_002\<close>)\<close>
  "avatar_onChange_part_002 file user now upload_ok storage_url st =
     (case file of
        None \<Rightarrow> st
      | Some f \<Rightarrow>
          (case user of
             None \<Rightarrow> st
           | Some uid \<Rightarrow>
               (let st = st\<lparr>uploadError := None\<rparr>;
                    maxSizeMb = 5
                in if file_size f > maxSizeMb * 1024 * 1024 then
                     st\<lparr>uploadError :=
                          Some (''Please choose an image smaller than '' @ digits maxSizeMb
                                @ ''MB.'')\<rparr>
                   else if \<not> startsWith (file_type f) ''image/'' then
                     st\<lparr>uploadError := Some ''Please upload an image file (PNG, JPG, etc.).''\<rparr>
                   else
                     (let st = st\<lparr>isUploadingAvatar := True\<rparr>;
                          fileExt = (let e = split_dot_pop (file_name f)
                                     in if e = [] then ''png'' else e);
                          filePath = ''user-'' @ uid @ ''/'' @ digits now @ ''.'' @ fileExt;
                          st = st\<lparr>requests := requests st @ [StorageUpload filePath]\<rparr>
                      in if \<not> upload_ok then
                           st\<lparr>uploadError :=
                                Some ''There was a problem uploading your avatar. Please try again.'',
                              isUploadingAvatar := False\<rparr>
                         else
                           (let publicUrl = getPublicUrl storage_url filePath
                            in st\<lparr>avatarUrl := publicUrl,
                                  requests := requests st @ [ProfilesUpsert publicUrl],
                                  isUploadingAvatar := False\<rparr>)))))"

section \<open>Notions used in the statements and the proofs\<close>

text \<open>
  A text is literal when it holds none of the characters that a pattern or the filter
  text of the list query reads in a special way: percent sign, underscore, backslash,
  asterisk, comma, parentheses and double quote.
\<close>

definition literal_text :: "string \<Rightarrow> bool" where
  "literal_text s =
     list_all (\<lambda>c. c \<notin> set [CHR ''%'', CHR ''_'', CHR 0x5C, CHR ''*'', CHR '','',
                               CHR ''('', CHR '')'', CHR 0x22]) s"

text \<open>The number a summary holds for a key, and the rows built from its entries.\<close>

definition entry_count :: "summary \<Rightarrow> task_status \<Rightarrow> nat" where
  "entry_count s k = (case map_of s k of None \<Rightarrow> 0 | Some n \<Rightarrow> n)"

definition as_rows :: "summary \<Rightarrow> TaskCountRow list" where
  "as_rows s = map (\<lambda>(status, count). \<lparr>tc_status = status, tc_count = count\<rparr>) s"

text \<open>A pattern text without the characters that \<open>like\<close> reads in a special way.\<close>

definition meta_free :: "string \<Rightarrow> bool" where
  "meta_free p = list_all (\<lambda>c. c \<noteq> CHR ''%'' \<and> c \<noteq> CHR ''_'' \<and> c \<noteq> CHR 0x5C) p"

text \<open>What the update branch of the upsert makes of a row.\<close>

definition replaced :: "uuid \<Rightarrow> string option \<Rightarrow> string option \<Rightarrow> timestamptz \<Rightarrow> profiles_row \<Rightarrow> profiles_row" where
  "replaced uid n a now r =
     (if user_id r = uid then r\<lparr>updated_at := now, name := n, avatar_url := a\<rparr> else r)"

section \<open>Example data\<close>

definition demo_tasks :: "tasks_row list" where
  \<comment> \<open>three tasks of the user u1 and one of the user u2\<close>
  "demo_tasks =
     [\<lparr>row_id = ''t1'', user_id = ''u1'', created_at = 1, updated_at = 1,
        title = ''Buy milk'', description = None, status = Pending\<rparr>,
      \<lparr>row_id = ''t2'', user_id = ''u2'', created_at = 2, updated_at = 2,
        title = ''Other'', description = None, status = Pending\<rparr>,
      \<lparr>row_id = ''t3'', user_id = ''u1'', created_at = 3, updated_at = 4,
        title = ''Write report'', description = Some ''with MILK prices'', status = Completed\<rparr>,
      \<lparr>row_id = ''t4'', user_id = ''u1'', created_at = 5, updated_at = 5,
        title = ''Review'', description = Some ''PRs'', status = Completed\<rparr>]"

text \<open>The first page of the tasks of the user u1 in the example table.\<close>

definition demo_page :: "Task list" where
  "demo_page =
     [\<lparr>t_id = ''t4'', t_title = ''Review'', t_description = Some ''PRs'',
        t_status = Completed, t_created_at = 5\<rparr>,
      \<lparr>t_id = ''t3'', t_title = ''Write report'', t_description = Some ''with MILK prices'',
        t_status = Completed, t_created_at = 3\<rparr>,
      \<lparr>t_id = ''t1'', t_title = ''Buy milk'', t_description = None,
        t_status = Pending, t_created_at = 1\<rparr>]"

definition demo_profiles :: "profiles_row list" where
  \<comment> \<open>the profile of the user u2\<close>
  "demo_profiles =
     [\<lparr>row_id = ''p1'', user_id = ''u2'', created_at = 1, updated_at = 1,
        name = Some ''Bo'', avatar_url = None\<rparr>]"

text \<open>Two states of the form "Add Task", the example table without the task t1, and the
  example profiles after a first and a second save by the user u1.\<close>

definition blank_form :: add_task_form where
  "blank_form = \<lparr>form_title = ''  '', form_description = [], form_status = Pending\<rparr>"

definition milk_form :: add_task_form where
  "milk_form = \<lparr>form_title = ''Buy milk'', form_description = [], form_status = Pending\<rparr>"

definition demo_tasks_less_t1 :: "tasks_row list" where
  "demo_tasks_less_t1 = [demo_tasks ! 1, demo_tasks ! 2, demo_tasks ! 3]"

definition demo_profiles_1 :: "profiles_row list" where
  "demo_profiles_1 =
     demo_profiles @ [\<lparr>row_id = ''p9'', user_id = ''u1'', created_at = 7, updated_at = 7,
                        name = Some ''Ann'', avatar_url = None\<rparr>]"

definition demo_profiles_2 :: "profiles_row list" where
  "demo_profiles_2 =
     demo_profiles @ [\<lparr>row_id = ''p9'', user_id = ''u1'', created_at = 7, updated_at = 9,
                        name = Some ''Anna'', avatar_url = None\<rparr>]"

text \<open>An update of the task t1 and one of the profile of u2, each naming \<open>updated_at\<close>,
  and the tables after them at the time 9.\<close>

definition touch_t1 :: tasks_set where
  "touch_t1 = \<lparr>set_updated_at = Some 0, set_title = None, set_description = None,
               set_status = Some Completed\<rparr>"

definition demo_tasks_touched :: "tasks_row list" where
  "demo_tasks_touched =
     [\<lparr>row_id = ''t1'', user_id = ''u1'', created_at = 1, updated_at = 9,
        title = ''Buy milk'', description = None, status = Completed\<rparr>,
      demo_tasks ! 1, demo_tasks ! 2, demo_tasks ! 3]"

definition rename_bo :: profiles_set where
  "rename_bo = \<lparr>set_updated_at = Some 0, set_name = Some (Some ''Bob''), set_avatar_url = None\<rparr>"

definition demo_profiles_renamed :: "profiles_row list" where
  "demo_profiles_renamed =
     [\<lparr>row_id = ''p1'', user_id = ''u2'', created_at = 1, updated_at = 9,
        name = Some ''Bob'', avatar_url = None\<rparr>]"

text \<open>A page that has sent nothing, an image of 10 MiB and a text file.\<close>

definition fresh_page :: avatar_state where
  "fresh_page = \<lparr>uploadError = None, isUploadingAvatar = False, avatarUrl = [], requests = []\<rparr>"

definition big_png :: File where
  "big_png = \<lparr>file_name = ''me.png'', file_size = 10485760, file_type = ''image/png''\<rparr>"

definition notes_txt :: File where
  "notes_txt = \<lparr>file_name = ''notes.txt'', file_size = 12, file_type = ''text/plain''\<rparr>"

text \<open>A table of 25 tasks of the user u1, and the result of the list query on it at a
  page, with the filter "all" and no search text.\<close>

definition many_tasks :: "tasks_row list" where
  "many_tasks =
     map (\<lambda>i. \<lparr>row_id = replicate (Suc i) CHR ''t'', user_id = ''u1'', created_at = i, updated_at = i,
                title = ''Task'', description = None, status = Pending\<rparr>) [0..<25]"

definition many_page :: "nat \<Rightarrow> query_result" where
  "many_page page =
     \<lparr>data = map select_cols
               (range_rows ((page - 1) * pageSize) ((page - 1) * pageSize + pageSize - 1)
                  (matching (Some ''u1'') All [] many_tasks)),
      count = length (matching (Some ''u1'') All [] many_tasks)\<rparr>"

section \<open>Page count\<close>

lemma ceiling_div_nat:
  assumes d: "0 < d"
  shows "\<lceil>real n / real d\<rceil> = int ((n + d - 1) div d)"
proof (rule ceiling_unique)
  let ?k = "(n + d - 1) div d"
  have a: "?k * d \<le> n + d - 1"
    by simp
  have b: "n + d - 1 < ?k * d + d"
    using d dividend_less_times_div[of d "n + d - 1"] by (simp add: mult.commute add.commute)
  from a d have "?k * d < n + d" by linarith
  then have "real (?k * d) < real (n + d)" by (rule iffD2[OF of_nat_less_iff])
  then have "real (?k * d) < real n + real d" by simp
  then show "of_int (int ?k) - 1 < real n / real d"
    using d by (simp add: field_simps)
  from b d have "n \<le> ?k * d" by linarith
  then have "real n \<le> real (?k * d)" by (rule iffD2[OF of_nat_le_iff])
  then show "real n / real d \<le> of_int (int ?k)"
    using d by (simp add: field_simps)
qed

lemma pageCount_div: "pageCount n = max 1 ((n + 9) div 10)"
  unfolding pageCount_def pageSize_def using ceiling_div_nat[of 10 n] by simp

lemma queryFn_no_match:
  "matching auth_uid statusFilter search tbl = [] \<Longrightarrow>
   queryFn True auth_uid page statusFilter search tbl = Inr \<lparr>data = [], count = 0\<rparr>"
  by (simp add: queryFn_def range_rows_def)

section \<open>Task counts of the profile page\<close>

lemma entry_count_incr:
  "entry_count (summary_incr s k) k' = (if k' = k then entry_count s k + 1 else entry_count s k')"
  by (induction s k rule: summary_incr.induct) (auto simp: entry_count_def)

lemma sum_incr: "sum_list (map snd (summary_incr s k)) = sum_list (map snd s) + 1"
  by (induction s k rule: summary_incr.induct) auto

lemma entry_count_fold:
  "entry_count (foldl (\<lambda>summary row. summary_incr summary (fst row)) s rows) k
     = entry_count s k + length (filter (\<lambda>row. fst row = k) rows)"
  by (induction rows arbitrary: s) (auto simp: entry_count_incr)

lemma sum_fold:
  "sum_list (map snd (foldl (\<lambda>summary row. summary_incr summary (fst row)) s rows))
     = sum_list (map snd s) + length rows"
  by (induction rows arbitrary: s) (auto simp: sum_incr)

lemma foldl_plus: "foldl (\<lambda>sum row. sum + f row) a xs = (a::nat) + sum_list (map f xs)"
  by (induction xs arbitrary: a) auto

lemma totalTasks_entries: "totalTasks (as_rows s) = sum_list (map snd s)"
  by (simp add: totalTasks_def foldl_plus as_rows_def comp_def case_prod_unfold)

lemma find_entries:
  "(case find (\<lambda>row. tc_status row = k) (as_rows s) of None \<Rightarrow> 0 | Some row \<Rightarrow> tc_count row)
     = entry_count s k"
  by (induction s) (auto simp: entry_count_def as_rows_def)

lemma status_partition:
  "length (filter (\<lambda>r. status r = Completed) rows) + length (filter (\<lambda>r. status r = Pending) rows)
     = length (rows :: tasks_row list)"
proof (induction rows)
  case Nil
  then show ?case by simp
next
  case (Cons r rows)
  then show ?case by (cases "status r") auto
qed

lemma task_counts_values:
  assumes "task_counts_queryFn net_ok (Some uid) tbl = Inr counts"
  shows "totalTasks counts = length (filter (\<lambda>r. user_id r = uid) tbl)"
    and "completedTasks counts = length (filter (\<lambda>r. status r = Completed) (filter (\<lambda>r. user_id r = uid) tbl))"
    and "pendingTasks counts = length (filter (\<lambda>r. status r = Pending) (filter (\<lambda>r. user_id r = uid) tbl))"
proof -
  let ?own = "filter (\<lambda>r. user_id r = uid) tbl"
  let ?rows = "map (\<lambda>r. (status r, row_id r)) ?own"
  let ?s = "foldl (\<lambda>summary row. summary_incr summary (fst row)) [] ?rows"
  have own: "filter (\<lambda>r. auth_uid_is_user_id (Some uid) r \<and> user_id r = uid) tbl = ?own"
    by (rule filter_cong) (auto simp: auth_uid_is_user_id_def)
  from assms have counts: "counts = as_rows ?s"
    by (simp add: task_counts_queryFn_def as_rows_def own split: if_splits)
  show "totalTasks counts = length ?own"
    unfolding counts totalTasks_entries sum_fold by simp
  show "completedTasks counts = length (filter (\<lambda>r. status r = Completed) ?own)"
    unfolding counts completedTasks_def find_entries entry_count_fold
    by (simp add: entry_count_def filter_map comp_def)
  show "pendingTasks counts = length (filter (\<lambda>r. status r = Pending) ?own)"
    unfolding counts pendingTasks_def find_entries entry_count_fold
    by (simp add: entry_count_def filter_map comp_def)
qed

lemma demo_counts:
  "task_counts_queryFn True (Some ''u1'') demo_tasks
     = Inr [\<lparr>tc_status = Pending, tc_count = 1\<rparr>, \<lparr>tc_status = Completed, tc_count = 2\<rparr>]"
  by (simp add: task_counts_queryFn_def demo_tasks_def auth_uid_is_user_id_def)

text \<open>
  C10. For every result of the task-count query of the profile page, the total the page
  shows is the completed count plus the pending count. With a signed-in user the three
  numbers are the numbers of the user's task rows: all of them, the completed ones and the
  pending ones. Without a result (no user, or the query failed) the three numbers are 0.
\<close>

theorem totalTasks_is_completed_plus_pending:
  "(task_counts_queryFn net_ok user tbl = Inr counts \<longrightarrow>
      totalTasks (counts_or_default (Some counts))
        = completedTasks (counts_or_default (Some counts))
          + pendingTasks (counts_or_default (Some counts))
      \<and> (\<forall>uid. user = Some uid \<longrightarrow>
            totalTasks counts = length (filter (\<lambda>r. user_id r = uid) tbl) \<and>
            completedTasks counts
              = length (filter (\<lambda>r. status r = Completed) (filter (\<lambda>r. user_id r = uid) tbl)) \<and>
            pendingTasks counts
              = length (filter (\<lambda>r. status r = Pending) (filter (\<lambda>r. user_id r = uid) tbl))))
   \<and> totalTasks (counts_or_default None) = 0
   \<and> completedTasks (counts_or_default None) = 0
   \<and> pendingTasks (counts_or_default None) = 0"
proof -
  have none: "totalTasks (counts_or_default None) = 0 \<and>
      completedTasks (counts_or_default None) = 0 \<and> pendingTasks (counts_or_default None) = 0"
    by (simp add: counts_or_default_def totalTasks_def completedTasks_def pendingTasks_def)
  have some: "totalTasks counts = completedTasks counts + pendingTasks counts"
    if q: "task_counts_queryFn net_ok user tbl = Inr counts"
  proof (cases user)
    case None
    with q have "counts = []" by (simp add: task_counts_queryFn_def)
    then show ?thesis by (simp add: totalTasks_def completedTasks_def pendingTasks_def)
  next
    case (Some uid)
    with q have "task_counts_queryFn net_ok (Some uid) tbl = Inr counts" by simp
    from task_counts_values[OF this] status_partition[of "filter (\<lambda>r. user_id r = uid) tbl"]
    show ?thesis by simp
  qed
  have vals: "totalTasks counts = length (filter (\<lambda>r. user_id r = uid) tbl) \<and>
      completedTasks counts
        = length (filter (\<lambda>r. status r = Completed) (filter (\<lambda>r. user_id r = uid) tbl)) \<and>
      pendingTasks counts
        = length (filter (\<lambda>r. status r = Pending) (filter (\<lambda>r. user_id r = uid) tbl))"
    if "task_counts_queryFn net_ok user tbl = Inr counts" and "user = Some uid" for uid
    using task_counts_values[of net_ok uid tbl counts] that by simp
  have dflt: "counts_or_default (Some counts) = counts"
    by (simp add: counts_or_default_def)
  from none some vals show ?thesis
    unfolding dflt by blast
qed

theorem totalTasks_is_completed_plus_pending_witness:
  "task_counts_queryFn True (Some ''u1'') demo_tasks
     = Inr [\<lparr>tc_status = Pending, tc_count = 1\<rparr>, \<lparr>tc_status = Completed, tc_count = 2\<rparr>]
   \<and> totalTasks [\<lparr>tc_status = Pending, tc_count = 1\<rparr>, \<lparr>tc_status = Completed, tc_count = 2\<rparr>] = 3
   \<and> completedTasks [\<lparr>tc_status = Pending, tc_count = 1\<rparr>, \<lparr>tc_status = Completed, tc_count = 2\<rparr>] = 2
   \<and> pendingTasks [\<lparr>tc_status = Pending, tc_count = 1\<rparr>, \<lparr>tc_status = Completed, tc_count = 2\<rparr>] = 1"
  using demo_counts
    totalTasks_is_completed_plus_pending [of True "Some ''u1''" demo_tasks
      "[\<lparr>tc_status = Pending, tc_count = 1\<rparr>, \<lparr>tc_status = Completed, tc_count = 2\<rparr>]"]
  by (simp add: counts_or_default_def totalTasks_def completedTasks_def pendingTasks_def)

section \<open>Patterns and substrings\<close>

text \<open>The code of a lower-cased capital letter is 32 above the code of the letter.\<close>

lemma toLowerCase_char_code:
  "of_char (toLowerCase_char c) = (if isUpperCase c then of_char c + 32 else (of_char c :: nat))"
  by (cases c) (auto simp: toLowerCase_char_def isUpperCase_def)

lemma like_percent: "like s ''%''"
  by (induction s) auto

lemma like_literal_prefix: "meta_free q \<Longrightarrow> like s (q @ ''%'') \<longleftrightarrow> prefix q s"
proof (induction q arbitrary: s)
  case Nil
  then show ?case using like_percent by simp
next
  case (Cons c q)
  then show ?case by (cases s) (auto simp: meta_free_def)
qed

lemma like_contains: "meta_free q \<Longrightarrow> like s (CHR ''%'' # q @ ''%'') \<longleftrightarrow> sublist q s"
proof (induction s)
  case Nil
  then show ?case using like_literal_prefix[of q "[]"] by auto
next
  case (Cons c s)
  then show ?case using like_literal_prefix[of q "c # s"]
    by (auto simp: sublist_Cons_right)
qed

lemma toLowerCase_char_meta:
  "c \<noteq> CHR ''%'' \<Longrightarrow> c \<noteq> CHR ''_'' \<Longrightarrow> c \<noteq> CHR 0x5C \<Longrightarrow>
   toLowerCase_char c \<noteq> CHR ''%'' \<and> toLowerCase_char c \<noteq> CHR ''_'' \<and> toLowerCase_char c \<noteq> CHR 0x5C"
  by (cases c) (auto simp: toLowerCase_char_def isUpperCase_def)

lemma meta_free_toLowerCase: "meta_free q \<Longrightarrow> meta_free (toLowerCase q)"
  by (induction q) (auto simp: meta_free_def toLowerCase_def dest: toLowerCase_char_meta)

lemma literal_meta_free: "literal_text q \<Longrightarrow> meta_free q"
  by (induction q) (auto simp: literal_text_def meta_free_def)

lemma literal_star: "literal_text q \<Longrightarrow> star_to_percent q = q"
  by (induction q) (auto simp: literal_text_def star_to_percent_def)

lemma ilike_contains:
  assumes "literal_text q"
  shows "ilike s (star_to_percent (''%'' @ q @ ''%'')) \<longleftrightarrow> sublist (toLowerCase q) (toLowerCase s)"
proof -
  have "star_to_percent (''%'' @ q @ ''%'') = CHR ''%'' # q @ ''%''"
    using literal_star[OF assms] by (simp add: star_to_percent_def)
  moreover have "toLowerCase (CHR ''%'' # q @ ''%'') = CHR ''%'' # toLowerCase q @ ''%''"
    by (simp add: toLowerCase_def toLowerCase_char_def isUpperCase_def)
  ultimately show ?thesis
    using like_contains[OF meta_free_toLowerCase[OF literal_meta_free[OF assms]]]
    by (simp add: ilike_def)
qed

lemma includes_str_sublist: "includes_str s sub \<longleftrightarrow> sublist sub s"
  by (induction s) (auto simp: sublist_Cons_right)

lemma set_order: "set (order_created_at_desc rows) = set rows"
  by (simp add: order_created_at_desc_def)

lemma length_order: "length (order_created_at_desc rows) = length rows"
  by (simp add: order_created_at_desc_def)

lemma set_range_rows: "set (range_rows from to rows) \<subseteq> set rows"
  unfolding range_rows_def by (meson set_drop_subset set_take_subset subset_trans)

lemma matching_subset: "set (matching auth_uid statusFilter search tbl) \<subseteq> set (tasks_select auth_uid tbl)"
  by (auto simp: matching_def Let_def set_order split: status_filter.splits if_splits)

lemma matching_status:
  "r \<in> set (matching auth_uid (Only s) search tbl) \<Longrightarrow> status r = s"
  by (auto simp: matching_def Let_def split: if_splits)

lemma matching_search:
  assumes "r \<in> set (matching auth_uid statusFilter search tbl)"
    and "trim search \<noteq> []" and "literal_text (trim search)"
  shows "sublist (toLowerCase (trim search)) (toLowerCase (title r)) \<or>
         (\<exists>d. description r = Some d \<and> sublist (toLowerCase (trim search)) (toLowerCase d))"
  using assms ilike_contains[OF assms(3)]
  by (auto simp: matching_def Let_def split: status_filter.splits option.splits)

lemma matching_all:
  "trim search = [] \<Longrightarrow> matching auth_uid All search tbl = order_created_at_desc (tasks_select auth_uid tbl)"
  by (simp add: matching_def)

lemma matching_own_rows:
  "matching auth_uid statusFilter search (tasks_select auth_uid tbl) = matching auth_uid statusFilter search tbl"
  by (simp add: matching_def tasks_select_def)

lemma nth_in_page:
  assumes "i < length xs"
  shows "xs ! i \<in> set (range_rows ((Suc (i div pageSize) - 1) * pageSize) ((Suc (i div pageSize) - 1) * pageSize + pageSize - 1) xs)"
proof -
  define m where "m = i div pageSize * pageSize"
  have ps: "0 < pageSize" by (simp add: pageSize_def)
  have m: "m \<le> i" by (simp add: m_def)
  have lt: "i - m < pageSize" using ps unfolding m_def
    by (metis minus_div_mult_eq_mod mod_less_divisor)
  have "i - m < length (drop m xs)"
    using assms m by simp
  with lt have len: "i - m < length (take pageSize (drop m xs))"
    by simp
  have "take pageSize (drop m xs) ! (i - m) = xs ! i"
    using assms lt m by simp
  with len have "xs ! i \<in> set (take pageSize (drop m xs))"
    by (metis nth_mem)
  moreover have "Suc (m + pageSize - 1) - m = pageSize" using ps by simp
  ultimately show ?thesis by (simp add: range_rows_def m_def)
qed

section \<open>The list query\<close>

lemmas list_query_defs =
  queryFn_def matching_def tasks_select_def auth_uid_is_user_id_def order_created_at_desc_def
  trim_def isWhiteSpace_def star_to_percent_def ilike_def toLowerCase_def toLowerCase_char_def
  isUpperCase_def range_rows_def pageSize_def select_cols_def

lemma queryFn_Inr:
  "queryFn net_ok auth_uid page statusFilter search tbl = Inr res \<Longrightarrow>
   net_ok \<and> data res = map select_cols
       (range_rows ((page - 1) * pageSize) ((page - 1) * pageSize + pageSize - 1)
          (matching auth_uid statusFilter search tbl))
   \<and> count res = length (matching auth_uid statusFilter search tbl)"
  by (auto simp: queryFn_def Let_def split: if_splits)

lemma queryFn_data_subset:
  assumes "queryFn net_ok auth_uid page statusFilter search tbl = Inr res"
  shows "set (data res) \<subseteq> select_cols ` set (matching auth_uid statusFilter search tbl)"
  using queryFn_Inr[OF assms] set_range_rows by fastforce

lemma queryFn_own_rows:
  "queryFn net_ok auth_uid page statusFilter search (tasks_select auth_uid tbl)
     = queryFn net_ok auth_uid page statusFilter search tbl"
  by (simp add: queryFn_def matching_own_rows)

text \<open>
  C1. For an authenticated caller the list query returns a row only if the row's
  \<open>user_id\<close> is the caller: every returned task is the selection of a stored row of the
  caller and, the ids of the table being distinct, no row of another identity has its id
  in the result. Rows of other identities raise no error: when the request reaches the
  store the query returns a result, and the result is the one the query returns on the
  caller's rows alone. A caller without a session gets no row. The query of the earlier
  dashboard returns rows of the caller only, too.
\<close>

theorem listTasks_returns_own_rows_only:
  "(net_ok \<and> 1 \<le> page \<longrightarrow>
      (\<exists>res. queryFn net_ok (Some uid) page statusFilter search tbl = Inr res))
   \<and> (1 \<le> page \<and> queryFn net_ok (Some uid) page statusFilter search tbl = Inr res \<longrightarrow>
        (\<forall>t\<in>set (data res). \<exists>r\<in>set tbl. user_id r = uid \<and> select_cols r = t)
        \<and> (distinct (map row_id tbl) \<longrightarrow>
             (\<forall>r\<in>set tbl. user_id r \<noteq> uid \<longrightarrow> row_id r \<notin> t_id ` set (data res)))
        \<and> queryFn net_ok (Some uid) page statusFilter search (filter (\<lambda>r. user_id r = uid) tbl)
             = Inr res)
   \<and> (1 \<le> page \<and> queryFn net_ok None page statusFilter search tbl = Inr res \<longrightarrow>
        data res = [])
   \<and> (queryFn_part_001 net_ok (Some uid) tbl = Inr ts \<longrightarrow>
        (\<forall>t\<in>set ts. \<exists>r\<in>set tbl. user_id r = uid \<and> select_cols r = t))"
proof -
  have ok: "\<exists>res. queryFn net_ok (Some uid) page statusFilter search tbl = Inr res" if net_ok
    using that by (simp add: queryFn_def Let_def)
  have sel: "tasks_select (Some uid) tbl = filter (\<lambda>r. user_id r = uid) tbl"
    unfolding tasks_select_def by (rule filter_cong) (auto simp: auth_uid_is_user_id_def)
  have own: "\<exists>r\<in>set tbl. user_id r = uid \<and> select_cols r = t"
    if q: "queryFn net_ok (Some uid) page statusFilter search tbl = Inr res"
      and t: "t \<in> set (data res)" for t
  proof -
    from queryFn_data_subset[OF q] t matching_subset
    obtain r where "r \<in> set (tasks_select (Some uid) tbl)" and "select_cols r = t"
      by blast
    then show ?thesis by (auto simp: sel)
  qed
  have foreign: "row_id r \<notin> t_id ` set (data res)"
    if q: "queryFn net_ok (Some uid) page statusFilter search tbl = Inr res"
      and d: "distinct (map row_id tbl)" and r: "r \<in> set tbl" "user_id r \<noteq> uid" for r
  proof
    assume "row_id r \<in> t_id ` set (data res)"
    then obtain t where t: "t \<in> set (data res)" "t_id t = row_id r" by auto
    from own[OF q t(1)] obtain r' where r': "r' \<in> set tbl" "user_id r' = uid" "select_cols r' = t"
      by blast
    then have "row_id r' = row_id r" using t(2) by (auto simp: select_cols_def)
    with d r(1) r'(1) have "r' = r" by (meson distinct_map inj_onD)
    with r(2) r'(2) show False by simp
  qed
  have same: "queryFn net_ok (Some uid) page statusFilter search (filter (\<lambda>r. user_id r = uid) tbl)
      = Inr res" if "queryFn net_ok (Some uid) page statusFilter search tbl = Inr res"
    using that queryFn_own_rows[of net_ok "Some uid" page statusFilter search tbl]
    by (simp add: sel)
  have anon: "data res = []" if q: "queryFn net_ok None page statusFilter search tbl = Inr res"
  proof -
    have "tasks_select None tbl = []"
      by (simp add: tasks_select_def auth_uid_is_user_id_def)
    with matching_subset[of None statusFilter search tbl]
    have "matching None statusFilter search tbl = []" by simp
    with queryFn_Inr[OF q] show ?thesis by (simp add: range_rows_def)
  qed
  have early: "\<exists>r\<in>set tbl. user_id r = uid \<and> select_cols r = t"
    if q: "queryFn_part_001 net_ok (Some uid) tbl = Inr ts" and t: "t \<in> set ts" for t
  proof -
    from q have "ts = map select_cols (order_created_at_desc (tasks_select (Some uid) tbl))"
      by (simp add: queryFn_part_001_def split: if_splits)
    with t show ?thesis by (auto simp: set_order sel)
  qed
  from ok own foreign same anon early show ?thesis by blast
qed

lemma demo_list_all:
  "queryFn True (Some ''u1'') 1 All [] demo_tasks = Inr \<lparr>data = demo_page, count = 3\<rparr>"
  by (simp add: list_query_defs demo_tasks_def demo_page_def)

theorem listTasks_returns_own_rows_only_witness:
  "queryFn True (Some ''u1'') 1 All [] demo_tasks = Inr \<lparr>data = demo_page, count = 3\<rparr>
   \<and> distinct (map row_id demo_tasks)
   \<and> user_id (demo_tasks ! 1) = ''u2''
   \<and> row_id (demo_tasks ! 1) \<notin> t_id ` set demo_page
   \<and> queryFn True (Some ''u1'') 1 All [] (filter (\<lambda>r. user_id r = ''u1'') demo_tasks)
        = Inr \<lparr>data = demo_page, count = 3\<rparr>
   \<and> queryFn True None 1 All [] demo_tasks = Inr \<lparr>data = [], count = 0\<rparr>"
proof -
  have n: "queryFn True None 1 All [] demo_tasks = Inr \<lparr>data = [], count = 0\<rparr>"
    by (simp add: list_query_defs demo_tasks_def)
  have d: "distinct (map row_id demo_tasks)"
    by (simp add: demo_tasks_def)
  have m: "demo_tasks ! 1 \<in> set demo_tasks" "user_id (demo_tasks ! 1) = ''u2''"
    by (simp_all add: demo_tasks_def)
  from listTasks_returns_own_rows_only
         [of True 1 "''u1''" All "[]" demo_tasks "\<lparr>data = demo_page, count = 3\<rparr>"]
       demo_list_all d m n
  show ?thesis by auto
qed

lemma sublist_trim: "sublist (trim s) s"
proof -
  have "prefix (trim s) (dropWhile isWhiteSpace s)"
    unfolding trim_def
    by (metis prefix_def rev_append rev_rev_ident takeWhile_dropWhile_id)
  moreover have "suffix (dropWhile isWhiteSpace s) s"
    by (rule suffix_dropWhile)
  ultimately show ?thesis
    by (meson prefix_imp_sublist sublist_order.order_trans suffix_imp_sublist)
qed

lemma sublist_toLowerCase: "sublist a b \<Longrightarrow> sublist (toLowerCase a) (toLowerCase b)"
  unfolding toLowerCase_def by (rule map_mono_sublist)

lemma part_001_status:
  "t \<in> set (filteredTasks_part_001 ts search (Only s)) \<Longrightarrow> t_status t = s"
  by (auto simp: filteredTasks_part_001_def Let_def)

lemma part_001_search:
  assumes "t \<in> set (filteredTasks_part_001 ts search statusFilter)" and "trim search \<noteq> []"
  shows "sublist (toLowerCase (trim search)) (toLowerCase (t_title t)) \<or>
         (\<exists>d. t_description t = Some d \<and> sublist (toLowerCase (trim search)) (toLowerCase d))"
proof -
  have ne: "toLowerCase search \<noteq> []"
    using assms(2) by (auto simp: toLowerCase_def trim_def)
  have tr: "sublist (toLowerCase (trim search)) (toLowerCase search)"
    by (rule sublist_toLowerCase[OF sublist_trim])
  from assms have
    "sublist (toLowerCase search) (toLowerCase (t_title t)) \<or>
     sublist (toLowerCase search) (toLowerCase (case t_description t of None \<Rightarrow> [] | Some d \<Rightarrow> d))"
    by (auto simp: filteredTasks_part_001_def Let_def includes_str_sublist)
  then show ?thesis
  proof
    assume "sublist (toLowerCase search) (toLowerCase (t_title t))"
    with tr show ?thesis by (meson sublist_order.order_trans)
  next
    assume a: "sublist (toLowerCase search)
      (toLowerCase (case t_description t of None \<Rightarrow> [] | Some d \<Rightarrow> d))"
    show ?thesis
    proof (cases "t_description t")
      case None
      with a ne show ?thesis by (simp add: toLowerCase_def)
    next
      case (Some d)
      with a tr show ?thesis by (auto intro: sublist_order.order_trans)
    qed
  qed
qed

lemma part_001_all:
  "trim search = [] \<Longrightarrow> filteredTasks_part_001 ts search All = ts"
  by (simp add: filteredTasks_part_001_def)

lemma matching_page_exists:
  assumes r: "r \<in> set (tasks_select auth_uid tbl)" and blank: "trim search = []"
  shows "\<exists>p res. 1 \<le> p \<and> queryFn True auth_uid p All search tbl = Inr res
           \<and> select_cols r \<in> set (data res)"
proof -
  let ?xs = "matching auth_uid All search tbl"
  from r have "r \<in> set ?xs"
    by (simp add: matching_all[OF blank] set_order)
  then obtain i where i: "i < length ?xs" "?xs ! i = r"
    by (auto simp: in_set_conv_nth)
  let ?p = "Suc (i div pageSize)"
  let ?page = "range_rows ((?p - 1) * pageSize) ((?p - 1) * pageSize + pageSize - 1) ?xs"
  from nth_in_page[OF i(1)] i(2) have "r \<in> set ?page" by simp
  then have "select_cols r \<in> set (map select_cols ?page)" by simp
  moreover have "queryFn True auth_uid ?p All search tbl
      = Inr \<lparr>data = map select_cols ?page, count = length ?xs\<rparr>"
    by (simp add: queryFn_def Let_def)
  ultimately show ?thesis
    by (intro exI[of _ ?p] exI[of _ "\<lparr>data = map select_cols ?page, count = length ?xs\<rparr>"]) simp
qed

text \<open>
  C4, as amended. For every result of the list query of the dashboard: with the status
  filter set to a status every returned task has that status; when the search text is
  not blank and its trimmed form is literal, every returned task has the trimmed search
  text, compared without regard to case, as a substring of its title or of its
  description; with the filter "all" and a blank search text the count is the number of
  the caller's tasks and each of them is returned on one of the pages. The filter of the
  earlier dashboard keeps only tasks of the chosen status, keeps only tasks that hold the
  trimmed search text when the search text is not blank, and keeps every task with the
  filter "all" and a blank search text.
\<close>

theorem list_filters_status_and_search:
  "(1 \<le> page \<and> queryFn net_ok auth_uid page statusFilter search tbl = Inr res \<longrightarrow>
      (\<forall>s. statusFilter = Only s \<longrightarrow> (\<forall>t\<in>set (data res). t_status t = s))
      \<and> (trim search \<noteq> [] \<and> literal_text (trim search) \<longrightarrow>
           (\<forall>t\<in>set (data res).
              sublist (toLowerCase (trim search)) (toLowerCase (t_title t)) \<or>
              (\<exists>d. t_description t = Some d \<and>
                   sublist (toLowerCase (trim search)) (toLowerCase d))))
      \<and> (statusFilter = All \<and> trim search = [] \<longrightarrow>
           count res = length (tasks_select auth_uid tbl)))
   \<and> (trim search = [] \<longrightarrow>
        (\<forall>r\<in>set (tasks_select auth_uid tbl).
           \<exists>p res'. 1 \<le> p \<and> queryFn True auth_uid p All search tbl = Inr res'
                    \<and> select_cols r \<in> set (data res')))
   \<and> (\<forall>s. \<forall>t\<in>set (filteredTasks_part_001 ts search (Only s)). t_status t = s)
   \<and> (trim search \<noteq> [] \<longrightarrow>
        (\<forall>t\<in>set (filteredTasks_part_001 ts search statusFilter).
           sublist (toLowerCase (trim search)) (toLowerCase (t_title t)) \<or>
           (\<exists>d. t_description t = Some d \<and>
                sublist (toLowerCase (trim search)) (toLowerCase d))))
   \<and> (trim search = [] \<longrightarrow> filteredTasks_part_001 ts search All = ts)"
proof -
  have st: "t_status t = s"
    if q: "queryFn net_ok auth_uid page statusFilter search tbl = Inr res"
      and "statusFilter = Only s" "t \<in> set (data res)" for s t
  proof -
    from queryFn_data_subset[OF q] that(3)
    obtain r where "r \<in> set (matching auth_uid statusFilter search tbl)" "select_cols r = t"
      by blast
    with that(2) matching_status[of r auth_uid s search tbl] show ?thesis
      by (auto simp: select_cols_def)
  qed
  have se: "sublist (toLowerCase (trim search)) (toLowerCase (t_title t)) \<or>
        (\<exists>d. t_description t = Some d \<and> sublist (toLowerCase (trim search)) (toLowerCase d))"
    if q: "queryFn net_ok auth_uid page statusFilter search tbl = Inr res"
      and "trim search \<noteq> []" "literal_text (trim search)" "t \<in> set (data res)" for t
  proof -
    from queryFn_data_subset[OF q] that(4)
    obtain r where r: "r \<in> set (matching auth_uid statusFilter search tbl)" "select_cols r = t"
      by blast
    from matching_search[OF r(1) that(2,3)] r(2) show ?thesis
      by (auto simp: select_cols_def)
  qed
  have cnt: "count res = length (tasks_select auth_uid tbl)"
    if q: "queryFn net_ok auth_uid page statusFilter search tbl = Inr res"
      and "statusFilter = All" "trim search = []"
    using queryFn_Inr[OF q] that(2,3) by (simp add: matching_all length_order)
  from st se cnt matching_page_exists[of _ auth_uid tbl search]
    part_001_status[of _ ts search] part_001_search[of _ ts search statusFilter]
    part_001_all[of search ts]
  show ?thesis
    by (intro conjI impI allI ballI) blast+
qed

text \<open>
  C4 as stated fails. The search text of one space is not empty, yet the query returns
  the task "Review" (description "PRs"), which holds no space: a blank search text
  filters nothing, in the list query and in the filter of the earlier dashboard. And the
  search text \<open>r_p\<close> returns the task "Write report", which does not hold that text:
  the underscore of the pattern stands for any character.
\<close>

theorem search_text_counterexample:
  "queryFn True (Some ''u1'') 1 All '' '' demo_tasks = Inr \<lparr>data = demo_page, count = 3\<rparr>
   \<and> t_title (demo_page ! 0) = ''Review'' \<and> t_description (demo_page ! 0) = Some ''PRs''
   \<and> \<not> sublist (toLowerCase '' '') (toLowerCase ''Review'')
   \<and> \<not> sublist (toLowerCase '' '') (toLowerCase ''PRs'')
   \<and> filteredTasks_part_001 demo_page '' '' All = demo_page
   \<and> queryFn True (Some ''u1'') 1 All ''r_p'' demo_tasks
        = Inr \<lparr>data = [demo_page ! 1], count = 1\<rparr>
   \<and> t_title (demo_page ! 1) = ''Write report''
   \<and> t_description (demo_page ! 1) = Some ''with MILK prices''
   \<and> \<not> sublist (toLowerCase ''r_p'') (toLowerCase ''Write report'')
   \<and> \<not> sublist (toLowerCase ''r_p'') (toLowerCase ''with MILK prices'')"
  by (simp add: list_query_defs demo_tasks_def demo_page_def filteredTasks_part_001_def
        sublist_code)

lemma demo_list_milk:
  "queryFn True (Some ''u1'') 1 (Only Completed) ''Milk '' demo_tasks
     = Inr \<lparr>data = [demo_page ! 1], count = 1\<rparr>"
  by (simp add: list_query_defs demo_tasks_def demo_page_def)

lemma demo_trim_milk: "trim ''Milk '' = ''Milk''"
  by (simp add: trim_def isWhiteSpace_def)

lemma demo_literal_milk: "literal_text ''Milk''"
  by (simp add: literal_text_def)

lemma demo_part_001_milk:
  "filteredTasks_part_001 demo_page ''Milk '' (Only Completed) = [demo_page ! 1]"
  by (simp add: filteredTasks_part_001_def demo_page_def trim_def isWhiteSpace_def
        toLowerCase_def toLowerCase_char_def isUpperCase_def)

lemma demo_select_own:
  "tasks_select (Some ''u1'') demo_tasks = [demo_tasks ! 0, demo_tasks ! 2, demo_tasks ! 3]"
  by (simp add: tasks_select_def auth_uid_is_user_id_def demo_tasks_def)

theorem list_filters_status_and_search_witness:
  "queryFn True (Some ''u1'') 1 (Only Completed) ''Milk '' demo_tasks
     = Inr \<lparr>data = [demo_page ! 1], count = 1\<rparr>
   \<and> trim ''Milk '' = ''Milk'' \<and> literal_text ''Milk''
   \<and> t_status (demo_page ! 1) = Completed
   \<and> t_description (demo_page ! 1) = Some ''with MILK prices''
   \<and> sublist (toLowerCase ''Milk'') (toLowerCase ''with MILK prices'')
   \<and> filteredTasks_part_001 demo_page ''Milk '' (Only Completed) = [demo_page ! 1]
   \<and> queryFn True (Some ''u1'') 1 All [] demo_tasks = Inr \<lparr>data = demo_page, count = 3\<rparr>
   \<and> length (tasks_select (Some ''u1'') demo_tasks) = 3
   \<and> (\<exists>p res'. 1 \<le> p \<and> queryFn True (Some ''u1'') p All [] demo_tasks = Inr res'
         \<and> select_cols (demo_tasks ! 0) \<in> set (data res'))
   \<and> filteredTasks_part_001 demo_page [] All = demo_page"
proof -
  note a = list_filters_status_and_search
             [of 1 True "Some ''u1''" "Only Completed" "''Milk ''" demo_tasks
                 "\<lparr>data = [demo_page ! 1], count = 1\<rparr>" demo_page]
  note b = list_filters_status_and_search
             [of 1 True "Some ''u1''" All "[]" demo_tasks
                 "\<lparr>data = demo_page, count = 3\<rparr>" demo_page]
  have t0: "trim [] = []" by (simp add: trim_def)
  have sub: "sublist (toLowerCase ''Milk'') (toLowerCase ''with MILK prices'')"
    by (simp add: toLowerCase_def toLowerCase_char_def isUpperCase_def sublist_code)
  have d: "t_status (demo_page ! 1) = Completed"
    "t_description (demo_page ! 1) = Some ''with MILK prices''"
    by (simp_all add: demo_page_def)
  from b demo_list_all t0 have cnt: "length (tasks_select (Some ''u1'') demo_tasks) = 3"
    by simp
  have "demo_tasks ! 0 \<in> set (tasks_select (Some ''u1'') demo_tasks)"
    by (simp add: demo_select_own)
  with b t0 have pg: "\<exists>p res'. 1 \<le> p \<and> queryFn True (Some ''u1'') p All [] demo_tasks = Inr res'
         \<and> select_cols (demo_tasks ! 0) \<in> set (data res')"
    by blast
  from b t0 have all: "filteredTasks_part_001 demo_page [] All = demo_page"
    by blast
  from a demo_list_milk demo_trim_milk demo_literal_milk demo_part_001_milk sub d
    demo_list_all cnt pg all
  show ?thesis by blast
qed

section \<open>Page count of a list result\<close>

lemma length_range_rows:
  "length (range_rows ((page - 1) * pageSize) ((page - 1) * pageSize + pageSize - 1) xs)
     = min pageSize (length xs - (page - 1) * pageSize)"
proof -
  have "0 < pageSize" by (simp add: pageSize_def)
  then have "Suc ((page - 1) * pageSize + pageSize - 1) - (page - 1) * pageSize = pageSize"
    by simp
  then show ?thesis by (simp add: range_rows_def min.commute)
qed

lemma page_not_empty:
  assumes "1 \<le> page"
  shows "(page - 1) * pageSize < n \<longleftrightarrow> 1 \<le> n \<and> page \<le> pageCount n"
proof -
  obtain k where k: "page = Suc k" using assms by (cases page) auto
  have "k * 10 < n \<longleftrightarrow> 1 \<le> n \<and> Suc k \<le> max 1 ((n + 9) div 10)"
  proof (cases "n = 0")
    case True
    then show ?thesis by simp
  next
    case False
    then have a: "1 \<le> (n + 9) div 10" by presburger
    have b: "k * 10 < n \<longleftrightarrow> Suc k \<le> (n + 9) div 10" by presburger
    from False a b show ?thesis by (simp add: max_def)
  qed
  then show ?thesis by (simp add: k pageCount_div pageSize_def)
qed

text \<open>
  C3. The page count of a list result is the ceiling of total / pageSize, and at least 1.
  When no task matches, the list query returns the empty list with the count 0, and the
  page count the dashboard derives from the data of the query is 1, whether the query
  ran or not. For every result of the list query the count is the number of matching
  rows, the total the dashboard reads from the result is that count, and the page count
  it derives is the larger of 1 and the ceiling of that count / pageSize; the page holds
  rows exactly when there is a matching row and the page is at most the page count. For
  every total of at least 1 the page count is the ceiling of total / pageSize: the least
  number of pages of pageSize rows that hold total rows.
\<close>

theorem pageCount_is_ceiling_min_1:
  "(1 \<le> page \<and> matching user statusFilter search tbl = [] \<longrightarrow>
      queryFn True user page statusFilter search tbl = Inr \<lparr>data = [], count = 0\<rparr> \<and>
      tasks (tasksData net_ok user page statusFilter search tbl) = [] \<and>
      totalCount (tasksData net_ok user page statusFilter search tbl) = 0 \<and>
      pageCount (totalCount (tasksData net_ok user page statusFilter search tbl)) = 1)
   \<and> pageCount (totalCount None) = 1
   \<and> (1 \<le> page \<and> queryFn net_ok user page statusFilter search tbl = Inr res \<longrightarrow>
        count res = length (matching user statusFilter search tbl) \<and>
        totalCount (Some res) = count res \<and>
        tasks (Some res) = data res \<and>
        int (pageCount (totalCount (Some res)))
          = max 1 \<lceil>real (length (matching user statusFilter search tbl)) / real pageSize\<rceil> \<and>
        length (data res) = min pageSize (count res - (page - 1) * pageSize) \<and>
        (data res \<noteq> [] \<longleftrightarrow> 1 \<le> count res \<and> page \<le> pageCount (totalCount (Some res))))
   \<and> (1 \<le> page \<and> net_ok \<and> user = Some uid \<longrightarrow>
        totalCount (tasksData net_ok user page statusFilter search tbl)
          = length (matching user statusFilter search tbl) \<and>
        int (pageCount (totalCount (tasksData net_ok user page statusFilter search tbl)))
          = max 1 \<lceil>real (length (matching user statusFilter search tbl)) / real pageSize\<rceil>)
   \<and> 1 \<le> pageCount n
   \<and> (1 \<le> n \<longrightarrow>
        int (pageCount n) = \<lceil>real n / real pageSize\<rceil> \<and>
        pageCount n = (n + pageSize - 1) div pageSize \<and>
        (pageCount n - 1) * pageSize < n \<and> n \<le> pageCount n * pageSize)"
proof -
  have zero: "pageCount 0 = 1"
    by (simp add: pageCount_div)
  have pos: "1 \<le> pageCount n"
    by (simp add: pageCount_div)
  have ceil: "int (pageCount n) = \<lceil>real n / real pageSize\<rceil>" if "1 \<le> n"
  proof -
    from that have "1 \<le> (n + 9) div 10" by presburger
    then have "pageCount n = (n + 9) div 10" by (simp add: pageCount_div)
    then show ?thesis using ceiling_div_nat[of 10 n] by (simp add: pageSize_def)
  qed
  have ceil_max: "int (pageCount m) = max 1 \<lceil>real m / real pageSize\<rceil>" for m
  proof -
    have "\<lceil>real m / real pageSize\<rceil> = int ((m + 9) div 10)"
      using ceiling_div_nat[of 10 m] by (simp add: pageSize_def)
    then show ?thesis by (simp add: pageCount_div max_def)
  qed
  have least: "pageCount n = (n + pageSize - 1) div pageSize \<and>
      (pageCount n - 1) * pageSize < n \<and> n \<le> pageCount n * pageSize" if "1 \<le> n"
  proof -
    from that have "1 \<le> (n + 9) div 10" by presburger
    then have eq: "pageCount n = (n + 9) div 10" by (simp add: pageCount_div)
    have "((n + 9) div 10 - 1) * 10 < n" using that by presburger
    moreover have "n \<le> (n + 9) div 10 * 10" by presburger
    ultimately show ?thesis by (simp add: eq pageSize_def)
  qed
  have empty: "queryFn True user page statusFilter search tbl = Inr \<lparr>data = [], count = 0\<rparr> \<and>
      tasks (tasksData net_ok user page statusFilter search tbl) = [] \<and>
      totalCount (tasksData net_ok user page statusFilter search tbl) = 0 \<and>
      pageCount (totalCount (tasksData net_ok user page statusFilter search tbl)) = 1"
    if m: "matching user statusFilter search tbl = []"
  proof -
    have q: "queryFn b user page statusFilter search tbl
        = (if b then Inr \<lparr>data = [], count = 0\<rparr> else Inl TransientError)" for b
      by (simp add: queryFn_def m range_rows_def)
    have d: "tasksData net_ok user page statusFilter search tbl = None \<or>
        tasksData net_ok user page statusFilter search tbl = Some \<lparr>data = [], count = 0\<rparr>"
    proof (cases user)
      case None
      then show ?thesis by (simp add: tasksData_def)
    next
      case (Some uid)
      with q[of net_ok] show ?thesis by (cases net_ok) (simp_all add: tasksData_def)
    qed
    from d have "tasks (tasksData net_ok user page statusFilter search tbl) = []"
      by (auto simp: tasks_def)
    moreover from d have "totalCount (tasksData net_ok user page statusFilter search tbl) = 0"
      by (auto simp: totalCount_def)
    ultimately show ?thesis using zero by (simp add: q)
  qed
  have none: "pageCount (totalCount None) = 1"
    by (simp add: totalCount_def zero)
  have result: "count res = length (matching user statusFilter search tbl) \<and>
        totalCount (Some res) = count res \<and>
        tasks (Some res) = data res \<and>
        int (pageCount (totalCount (Some res)))
          = max 1 \<lceil>real (length (matching user statusFilter search tbl)) / real pageSize\<rceil> \<and>
        length (data res) = min pageSize (count res - (page - 1) * pageSize) \<and>
        (data res \<noteq> [] \<longleftrightarrow> 1 \<le> count res \<and> page \<le> pageCount (totalCount (Some res)))"
    if p: "1 \<le> page" and q: "queryFn net_ok user page statusFilter search tbl = Inr res"
  proof -
    from queryFn_Inr[OF q]
    have c: "count res = length (matching user statusFilter search tbl)"
      and d: "data res = map select_cols
         (range_rows ((page - 1) * pageSize) ((page - 1) * pageSize + pageSize - 1)
            (matching user statusFilter search tbl))"
      by simp_all
    have t: "totalCount (Some res) = count res" "tasks (Some res) = data res"
      by (simp_all add: totalCount_def tasks_def)
    have len: "length (data res) = min pageSize (count res - (page - 1) * pageSize)"
      unfolding d c length_map by (rule length_range_rows)
    have "data res \<noteq> [] \<longleftrightarrow> (page - 1) * pageSize < count res"
    proof -
      have "data res \<noteq> [] \<longleftrightarrow> 0 < length (data res)" by simp
      also have "\<dots> \<longleftrightarrow> (page - 1) * pageSize < count res"
        unfolding len by (simp add: pageSize_def)
      finally show ?thesis .
    qed
    with page_not_empty[OF p, of "count res"]
    have ne: "data res \<noteq> [] \<longleftrightarrow> 1 \<le> count res \<and> page \<le> pageCount (totalCount (Some res))"
      by (simp add: t)
    from c t len ne ceil_max[of "count res"] show ?thesis by simp
  qed
  have shown: "totalCount (tasksData net_ok user page statusFilter search tbl)
          = length (matching user statusFilter search tbl) \<and>
        int (pageCount (totalCount (tasksData net_ok user page statusFilter search tbl)))
          = max 1 \<lceil>real (length (matching user statusFilter search tbl)) / real pageSize\<rceil>"
    if "net_ok" "user = Some uid"
  proof -
    from that have "totalCount (tasksData net_ok user page statusFilter search tbl)
          = length (matching user statusFilter search tbl)"
      by (simp add: tasksData_def queryFn_def Let_def totalCount_def)
    with ceil_max[of "length (matching user statusFilter search tbl)"] show ?thesis by simp
  qed
  from empty none result shown pos ceil least show ?thesis
    by blast
qed

lemma many_matching: "length (matching (Some ''u1'') All [] many_tasks) = 25"
proof -
  have own: "auth_uid_is_user_id (Some ''u1'') r" if "r \<in> set many_tasks" for r
  proof -
    from that obtain i where "r = \<lparr>row_id = replicate (Suc i) CHR ''t'', user_id = ''u1'', created_at = i,
        updated_at = i, title = ''Task'', description = None, status = Pending\<rparr>"
      unfolding many_tasks_def set_map by (rule imageE)
    then show ?thesis by (simp add: auth_uid_is_user_id_def)
  qed
  have sel: "tasks_select (Some ''u1'') many_tasks = many_tasks"
    unfolding tasks_select_def using own by (intro filter_True ballI)
  have t: "trim [] = []" by (simp add: trim_def)
  have len: "length many_tasks = 25"
    unfolding many_tasks_def length_map length_upt by simp
  show ?thesis
    unfolding matching_all[OF t] length_order sel by (rule len)
qed


lemma many_query: "queryFn True (Some ''u1'') page All [] many_tasks = Inr (many_page page)"
  by (simp add: queryFn_def many_page_def Let_def)

theorem pageCount_is_ceiling_min_1_witness:
  "matching (Some ''u1'') All ''zebra'' demo_tasks = []
   \<and> queryFn True (Some ''u1'') 1 All ''zebra'' demo_tasks = Inr \<lparr>data = [], count = 0\<rparr>
   \<and> pageCount (totalCount (tasksData True (Some ''u1'') 1 All ''zebra'' demo_tasks)) = 1
   \<and> pageCount (totalCount None) = 1
   \<and> queryFn True (Some ''u1'') 1 All [] many_tasks = Inr (many_page 1)
   \<and> count (many_page 1) = 25
   \<and> totalCount (Some (many_page 1)) = 25
   \<and> pageCount (totalCount (Some (many_page 1))) = 3
   \<and> length (data (many_page 1)) = 10
   \<and> queryFn True (Some ''u1'') 4 All [] many_tasks = Inr (many_page 4)
   \<and> data (many_page 4) = []
   \<and> totalCount (tasksData True (Some ''u1'') 1 All [] many_tasks) = 25
   \<and> pageCount (totalCount (tasksData True (Some ''u1'') 1 All [] many_tasks)) = 3
   \<and> (1::nat) \<le> 25 \<and> pageCount 25 = 3 \<and> (3 - 1) * pageSize < 25 \<and> 25 \<le> 3 * pageSize"
proof -
  have m: "matching (Some ''u1'') All ''zebra'' demo_tasks = []"
    by (simp add: matching_def order_created_at_desc_def tasks_select_def trim_def
          auth_uid_is_user_id_def isWhiteSpace_def star_to_percent_def ilike_def
          toLowerCase_def toLowerCase_char_def isUpperCase_def demo_tasks_def)
  have p: "pageCount 25 = 3"
    by (simp add: pageCount_div)
  have s: "(3 - 1) * pageSize < 25 \<and> 25 \<le> 3 * pageSize"
    by (simp add: pageSize_def)
  have o: "(1::nat) \<le> 1" "(1::nat) \<le> 25" "(1::nat) \<le> 4"
    by simp_all
  have c: "max 1 \<lceil>real 25 / real pageSize\<rceil> = 3"
    by (simp add: pageSize_def)
  note z = pageCount_is_ceiling_min_1 [of 1 "Some ''u1''" All "''zebra''" demo_tasks True _ _ 25]
  note a = pageCount_is_ceiling_min_1 [of 1 "Some ''u1''" All "[]" many_tasks True "many_page 1" "''u1''" 25]
  note b = pageCount_is_ceiling_min_1 [of 4 "Some ''u1''" All "[]" many_tasks True "many_page 4" "''u1''" 25]
  from z m o(1)
  have e: "queryFn True (Some ''u1'') 1 All ''zebra'' demo_tasks = Inr \<lparr>data = [], count = 0\<rparr>"
    "pageCount (totalCount (tasksData True (Some ''u1'') 1 All ''zebra'' demo_tasks)) = 1"
    "pageCount (totalCount None) = 1"
    by blast+
  from a o(1) many_query[of 1]
  have r: "count (many_page 1) = length (matching (Some ''u1'') All [] many_tasks)"
    "totalCount (Some (many_page 1)) = count (many_page 1)"
    "int (pageCount (totalCount (Some (many_page 1))))
       = max 1 \<lceil>real (length (matching (Some ''u1'') All [] many_tasks)) / real pageSize\<rceil>"
    "length (data (many_page 1)) = min pageSize (count (many_page 1) - (1 - 1) * pageSize)"
    by blast+
  from r(1) have r1: "count (many_page 1) = 25" by (simp add: many_matching)
  from r(2) r1 have r2: "totalCount (Some (many_page 1)) = 25" by simp
  from r(3) have "int (pageCount (totalCount (Some (many_page 1)))) = 3"
    unfolding many_matching using c by simp
  then have r3: "pageCount (totalCount (Some (many_page 1))) = 3" by simp
  from r(4) r1 have r4: "length (data (many_page 1)) = 10" by (simp add: pageSize_def)
  from b o(3) many_query[of 4]
  have f: "count (many_page 4) = length (matching (Some ''u1'') All [] many_tasks)"
    "length (data (many_page 4)) = min pageSize (count (many_page 4) - (4 - 1) * pageSize)"
    by blast+
  from f have r5: "data (many_page 4) = []" by (simp add: many_matching pageSize_def)
  from a o(1)
  have t: "totalCount (tasksData True (Some ''u1'') 1 All [] many_tasks)
          = length (matching (Some ''u1'') All [] many_tasks)"
    "int (pageCount (totalCount (tasksData True (Some ''u1'') 1 All [] many_tasks)))
       = max 1 \<lceil>real (length (matching (Some ''u1'') All [] many_tasks)) / real pageSize\<rceil>"
    by blast+
  from t(1) have t1: "totalCount (tasksData True (Some ''u1'') 1 All [] many_tasks) = 25"
    by (simp add: many_matching)
  from t(2) have "int (pageCount (totalCount (tasksData True (Some ''u1'') 1 All [] many_tasks))) = 3"
    unfolding many_matching using c by simp
  then have t2: "pageCount (totalCount (tasksData True (Some ''u1'') 1 All [] many_tasks)) = 3"
    by simp
  from m e many_query[of 1] r1 r2 r3 r4 many_query[of 4] r5 t1 t2 o(2) p s
  show ?thesis by blast
qed

section \<open>Creating and deleting tasks, saving the profile without a session\<close>

lemma own_iff: "auth_uid_is_user_id (Some uid) r \<longleftrightarrow> user_id r = uid"
  by (auto simp: auth_uid_is_user_id_def)

text \<open>
  C2 as stated fails. With a title of two spaces a click on "Add Task" runs nothing: no
  error is raised. And \<open>createTask\<close> itself checks no title: run with that title by a
  signed-in user it inserts the row and succeeds.
\<close>

theorem createTask_blank_title_counterexample:
  "addTask_onClick False True (Some ''u1'') blank_form 7 ''t9'' [] = None
   \<and> createTask_mutationFn True (Some ''u1'') blank_form 7 ''t9'' []
       = Inr [\<lparr>row_id = ''t9'', user_id = ''u1'', created_at = 7, updated_at = 7,
               title = ''  '', description = None, status = Pending\<rparr>]"
  by (simp add: addTask_onClick_def addTask_disabled_def createTask_mutationFn_def
        tasks_insert_def or_null_def blank_form_def trim_def isWhiteSpace_def)

text \<open>
  C2, as amended. With an empty or white-space-only title the button "Add Task" is
  disabled: a click runs no \<open>createTask\<close>, so no row is inserted and no error is raised.
  With a title that is not blank, no creation pending, a signed-in user, a store that
  answers and a fresh id, the click runs \<open>createTask\<close>, which succeeds and inserts one
  row: the title as typed, the description or null, the chosen status, the user as owner.
\<close>

theorem createTask_gated_by_title:
  "(trim (form_title form) = [] \<longrightarrow>
      addTask_disabled isPending form \<and>
      addTask_onClick isPending net_ok user form now new_id tbl = None)
   \<and> (trim (form_title form) \<noteq> [] \<and> \<not> isPending \<and> net_ok \<and> user = Some uid
        \<and> new_id \<notin> set (map row_id tbl) \<longrightarrow>
        addTask_onClick isPending net_ok user form now new_id tbl
          = Some (Inr (tbl @ [\<lparr>row_id = new_id, user_id = uid, created_at = now,
                               updated_at = now, title = form_title form,
                               description = or_null (form_description form),
                               status = form_status form\<rparr>])))"
  by (simp add: addTask_onClick_def addTask_disabled_def createTask_mutationFn_def
        tasks_insert_def)

theorem createTask_gated_by_title_witness:
  "trim (form_title blank_form) = []
   \<and> addTask_onClick False True (Some ''u1'') blank_form 7 ''t9'' demo_tasks = None
   \<and> trim (form_title milk_form) \<noteq> []
   \<and> ''t9'' \<notin> set (map row_id demo_tasks)
   \<and> addTask_onClick False True (Some ''u1'') milk_form 7 ''t9'' demo_tasks
       = Some (Inr (demo_tasks @ [\<lparr>row_id = ''t9'', user_id = ''u1'', created_at = 7,
                                  updated_at = 7, title = ''Buy milk'', description = None,
                                  status = Pending\<rparr>]))"
proof -
  have b: "trim (form_title blank_form) = []"
    by (simp add: blank_form_def trim_def isWhiteSpace_def)
  have m: "trim (form_title milk_form) \<noteq> []"
    by (simp add: milk_form_def trim_def isWhiteSpace_def)
  have f: "''t9'' \<notin> set (map row_id demo_tasks)"
    by (simp add: demo_tasks_def)
  from createTask_gated_by_title [of blank_form False True "Some ''u1''" 7 "''t9''" demo_tasks "''u1''"]
       createTask_gated_by_title [of milk_form False True "Some ''u1''" 7 "''t9''" demo_tasks "''u1''"]
       b m f
  show ?thesis by (simp add: milk_form_def or_null_def)
qed

text \<open>
  C6 as stated fails. Without a user \<open>upsertProfile\<close> returns at once: the table is as
  before, no error is raised, and the toast of success is shown.
\<close>

theorem upsertProfile_no_session_counterexample:
  "upsertProfile_mutationFn True None ''Ann'' [] None 7 ''p9'' demo_profiles = Inr demo_profiles
   \<and> upsertProfile_toast (upsertProfile_mutationFn True None ''Ann'' [] None 7 ''p9'' demo_profiles)
       = ''Profile updated''"
  by (simp add: upsertProfile_mutationFn_def upsertProfile_toast_def)

text \<open>
  C6, as amended. When no session is present (the user is null), \<open>upsertProfile\<close> sends
  nothing to the store and writes nothing, whatever the inputs and whether or not the
  store answers; it raises no error and so ends as a success ("Profile updated").
\<close>

theorem upsertProfile_no_session_no_write:
  "upsertProfile_mutationFn net_ok None name_input avatarUrl_input args now new_id tbl = Inr tbl
   \<and> upsertProfile_toast
        (upsertProfile_mutationFn net_ok None name_input avatarUrl_input args now new_id tbl)
       = ''Profile updated''"
  by (simp add: upsertProfile_mutationFn_def upsertProfile_toast_def)

theorem upsertProfile_no_session_no_write_witness:
  "upsertProfile_mutationFn False None ''Ann'' ''http://x/a.png'' None 7 ''p9'' demo_profiles
     = Inr demo_profiles"
  using upsertProfile_no_session_no_write
          [of False "''Ann''" "''http://x/a.png''" None 7 "''p9''" demo_profiles]
  by simp

text \<open>
  C7 as stated fails. The first delete of the task t1 removes it; the second delete of
  t1, now absent, succeeds as well ("Task deleted") and changes nothing. A delete of the
  task t2 of another user succeeds too and removes nothing.
\<close>

theorem deleteTask_absent_row_counterexample:
  "deleteTask_mutationFn True (Some ''u1'') ''t1'' demo_tasks = Inr demo_tasks_less_t1
   \<and> deleteTask_mutationFn True (Some ''u1'') ''t1'' demo_tasks_less_t1 = Inr demo_tasks_less_t1
   \<and> deleteTask_toast (deleteTask_mutationFn True (Some ''u1'') ''t1'' demo_tasks_less_t1)
       = ''Task deleted''
   \<and> deleteTask_mutationFn True (Some ''u1'') ''t2'' demo_tasks = Inr demo_tasks"
  by (simp add: deleteTask_mutationFn_def tasks_delete_def auth_uid_is_user_id_def
        deleteTask_toast_def demo_tasks_def demo_tasks_less_t1_def)

text \<open>
  C7, as amended. When the store answers, \<open>deleteTask\<close> succeeds: it removes the rows
  with that id that the caller owns and keeps every other row. On a row that is absent or
  owned by another identity it removes nothing and still succeeds; a second delete of a
  deleted task succeeds and leaves the table as it is.
\<close>

theorem deleteTask_removes_own_row_or_nothing:
  "(net_ok \<longrightarrow>
      deleteTask_mutationFn net_ok (Some uid) task_id tbl
        = Inr (filter (\<lambda>r. \<not> (user_id r = uid \<and> row_id r = task_id)) tbl))
   \<and> (net_ok \<and> (\<forall>r\<in>set tbl. row_id r = task_id \<longrightarrow> user_id r \<noteq> uid) \<longrightarrow>
        deleteTask_mutationFn net_ok (Some uid) task_id tbl = Inr tbl)
   \<and> (deleteTask_mutationFn net_ok (Some uid) task_id tbl = Inr tbl' \<longrightarrow>
        (\<forall>r\<in>set tbl'. \<not> (user_id r = uid \<and> row_id r = task_id))
        \<and> (\<forall>r\<in>set tbl. \<not> (user_id r = uid \<and> row_id r = task_id) \<longrightarrow> r \<in> set tbl')
        \<and> deleteTask_mutationFn net_ok (Some uid) task_id tbl' = Inr tbl'
        \<and> deleteTask_toast (deleteTask_mutationFn net_ok (Some uid) task_id tbl') = ''Task deleted'')"
proof -
  let ?keep = "\<lambda>r. \<not> (user_id r = uid \<and> row_id r = task_id)"
  have d: "deleteTask_mutationFn n (Some uid) task_id xs
      = (if n then Inr (filter ?keep xs) else Inl TransientError)" for xs n
    by (simp add: deleteTask_mutationFn_def tasks_delete_def own_iff)
  have one: "net_ok \<longrightarrow> deleteTask_mutationFn net_ok (Some uid) task_id tbl = Inr (filter ?keep tbl)"
    by (simp add: d)
  have same: "filter ?keep tbl = tbl"
    if "\<forall>r\<in>set tbl. row_id r = task_id \<longrightarrow> user_id r \<noteq> uid"
    using that by (auto simp: filter_id_conv)
  then have two: "net_ok \<and> (\<forall>r\<in>set tbl. row_id r = task_id \<longrightarrow> user_id r \<noteq> uid) \<longrightarrow>
        deleteTask_mutationFn net_ok (Some uid) task_id tbl = Inr tbl"
    by (simp add: d)
  have three: "(\<forall>r\<in>set tbl'. ?keep r)
        \<and> (\<forall>r\<in>set tbl. ?keep r \<longrightarrow> r \<in> set tbl')
        \<and> deleteTask_mutationFn net_ok (Some uid) task_id tbl' = Inr tbl'
        \<and> deleteTask_toast (deleteTask_mutationFn net_ok (Some uid) task_id tbl') = ''Task deleted''"
    if q: "deleteTask_mutationFn net_ok (Some uid) task_id tbl = Inr tbl'"
  proof -
    from q have n: net_ok and t: "tbl' = filter ?keep tbl"
      by (auto simp: d split: if_splits)
    have again: "deleteTask_mutationFn net_ok (Some uid) task_id tbl' = Inr tbl'"
      unfolding d t using n by simp
    have "\<forall>r\<in>set tbl'. ?keep r" unfolding t by simp
    moreover have "\<forall>r\<in>set tbl. ?keep r \<longrightarrow> r \<in> set tbl'" unfolding t by simp
    moreover have "deleteTask_toast (deleteTask_mutationFn net_ok (Some uid) task_id tbl') = ''Task deleted''"
      unfolding again by (simp add: deleteTask_toast_def)
    ultimately show ?thesis using again by blast
  qed
  from one two three show ?thesis by blast
qed

theorem deleteTask_removes_own_row_or_nothing_witness:
  "deleteTask_mutationFn True (Some ''u1'') ''t1'' demo_tasks = Inr demo_tasks_less_t1
   \<and> deleteTask_mutationFn True (Some ''u1'') ''t1'' demo_tasks_less_t1 = Inr demo_tasks_less_t1
   \<and> deleteTask_mutationFn True (Some ''u1'') ''t2'' demo_tasks = Inr demo_tasks"
proof -
  have a: "filter (\<lambda>r. \<not> (user_id r = ''u1'' \<and> row_id r = ''t1'')) demo_tasks = demo_tasks_less_t1"
    by (simp add: demo_tasks_def demo_tasks_less_t1_def)
  have b: "\<forall>r\<in>set demo_tasks. row_id r = ''t2'' \<longrightarrow> user_id r \<noteq> ''u1''"
    by (simp add: demo_tasks_def)
  note t1 = deleteTask_removes_own_row_or_nothing
              [of True "''u1''" "''t1''" demo_tasks demo_tasks_less_t1]
  note t2 = deleteTask_removes_own_row_or_nothing
              [of True "''u1''" "''t2''" demo_tasks demo_tasks]
  from t1[THEN conjunct1] a
  have x: "deleteTask_mutationFn True (Some ''u1'') ''t1'' demo_tasks = Inr demo_tasks_less_t1"
    by simp
  from t1[THEN conjunct2, THEN conjunct2] x
  have y: "deleteTask_mutationFn True (Some ''u1'') ''t1'' demo_tasks_less_t1
             = Inr demo_tasks_less_t1"
    by blast
  from t2[THEN conjunct2, THEN conjunct1] b
  have z: "deleteTask_mutationFn True (Some ''u1'') ''t2'' demo_tasks = Inr demo_tasks"
    by blast
  from x y z show ?thesis by blast
qed

section \<open>Saving the profile\<close>

lemma distinct_filter_single:
  "distinct (map k xs) \<Longrightarrow> x \<in> set xs \<Longrightarrow> filter (\<lambda>y. k y = k x) xs = [x]"
proof (induction xs)
  case Nil
  then show ?case by simp
next
  case (Cons a xs)
  show ?case
  proof (cases "a = x")
    case True
    from Cons.prems(1) have "k a \<notin> k ` set xs" by simp
    then have "\<forall>y\<in>set xs. k y \<noteq> k a" by (metis imageI)
    then have "filter (\<lambda>y. k y = k a) xs = []" by (simp add: filter_empty_conv)
    with True show ?thesis by simp
  next
    case False
    with Cons.prems have x: "x \<in> set xs" and d: "distinct (map k xs)" by auto
    from Cons.prems(1) x have "k a \<noteq> k x" by auto
    with Cons.IH[OF d x] show ?thesis by simp
  qed
qed

lemma profiles_upsert_cases:
  assumes "profiles_upsert net_ok auth_uid vals now new_id tbl = Inr tbl'"
  shows "net_ok \<and> auth_uid = Some (up_user_id vals) \<and>
       (((\<exists>r\<in>set tbl. user_id r = up_user_id vals) \<and>
          tbl' = map (replaced (up_user_id vals) (up_name vals) (up_avatar_url vals) now) tbl)
        \<or> ((\<forall>r\<in>set tbl. user_id r \<noteq> up_user_id vals) \<and> new_id \<notin> set (map row_id tbl) \<and>
           tbl' = tbl @ [\<lparr>row_id = new_id, user_id = up_user_id vals, created_at = now,
                           updated_at = now, name = up_name vals,
                           avatar_url = up_avatar_url vals\<rparr>]))"
proof -
  from assms have n: net_ok and a: "auth_uid = Some (up_user_id vals)"
    unfolding profiles_upsert_def by (simp_all split: if_splits)
  have f: "(\<lambda>r. if user_id r = up_user_id vals \<and> auth_uid_is_user_id auth_uid r
           then update_updated_at_column now
                  (profiles_apply_set \<lparr>set_updated_at = None, set_name = Some (up_name vals),
                                       set_avatar_url = Some (up_avatar_url vals)\<rparr> r)
           else r) = replaced (up_user_id vals) (up_name vals) (up_avatar_url vals) now"
    by (auto simp: a fun_eq_iff replaced_def own_iff update_updated_at_column_def
          profiles_apply_set_def)
  show ?thesis
  proof (cases "\<exists>r\<in>set tbl. user_id r = up_user_id vals")
    case True
    with assms n a
    have "tbl' = map (replaced (up_user_id vals) (up_name vals) (up_avatar_url vals) now) tbl"
      unfolding profiles_upsert_def f by simp
    with True n a show ?thesis by blast
  next
    case False
    with assms n a have "new_id \<notin> set (map row_id tbl) \<and>
           tbl' = tbl @ [\<lparr>row_id = new_id, user_id = up_user_id vals, created_at = now,
                           updated_at = now, name = up_name vals,
                           avatar_url = up_avatar_url vals\<rparr>]"
      unfolding profiles_upsert_def by (simp split: if_splits)
    with False n a show ?thesis by blast
  qed
qed

lemma user_id_replaced: "user_id (replaced uid n a now r) = user_id r"
  by (simp add: replaced_def)

lemma profiles_upsert_one_row:
  assumes d: "distinct (map user_id tbl)"
    and u: "profiles_upsert net_ok auth_uid vals now new_id tbl = Inr tbl'"
  shows "distinct (map user_id tbl')"
    and "\<exists>r. filter (\<lambda>r. user_id r = up_user_id vals) tbl' = [r] \<and> name r = up_name vals
             \<and> avatar_url r = up_avatar_url vals"
proof -
  let ?uid = "up_user_id vals"
  let ?f = "replaced ?uid (up_name vals) (up_avatar_url vals) now"
  let ?new = "\<lparr>row_id = new_id, user_id = ?uid, created_at = now, updated_at = now,
               name = up_name vals, avatar_url = up_avatar_url vals\<rparr>"
  from profiles_upsert_cases[OF u]
  consider (upd) "\<exists>r\<in>set tbl. user_id r = ?uid" "tbl' = map ?f tbl"
    | (ins) "\<forall>r\<in>set tbl. user_id r \<noteq> ?uid" "tbl' = tbl @ [?new]"
    by blast
  then show "distinct (map user_id tbl')"
  proof cases
    case upd
    then have "map user_id tbl' = map user_id tbl"
      by (simp add: comp_def user_id_replaced)
    with d show ?thesis by simp
  next
    case ins
    with d show ?thesis by auto
  qed
  from profiles_upsert_cases[OF u]
  consider (upd) "\<exists>r\<in>set tbl. user_id r = ?uid" "tbl' = map ?f tbl"
    | (ins) "\<forall>r\<in>set tbl. user_id r \<noteq> ?uid" "tbl' = tbl @ [?new]"
    by blast
  then show "\<exists>r. filter (\<lambda>r. user_id r = ?uid) tbl' = [r] \<and> name r = up_name vals
             \<and> avatar_url r = up_avatar_url vals"
  proof cases
    case upd
    then obtain r0 where r0: "r0 \<in> set tbl" "user_id r0 = ?uid" by blast
    from distinct_filter_single[OF d r0(1)] r0(2)
    have f: "filter (\<lambda>r. user_id r = ?uid) tbl = [r0]" by simp
    have "filter (\<lambda>r. user_id r = ?uid) tbl' = map ?f (filter (\<lambda>r. user_id r = ?uid) tbl)"
      using upd(2) by (simp add: filter_map comp_def user_id_replaced)
    with f have "filter (\<lambda>r. user_id r = ?uid) tbl' = [?f r0]" by simp
    moreover have "name (?f r0) = up_name vals" "avatar_url (?f r0) = up_avatar_url vals"
      using r0(2) by (simp_all add: replaced_def)
    ultimately show ?thesis by blast
  next
    case ins
    then have "filter (\<lambda>r. user_id r = ?uid) tbl = []" by (simp add: filter_empty_conv)
    with ins show ?thesis by simp
  qed
qed

lemma upsertProfile_Some:
  "upsertProfile_mutationFn net_ok (Some uid) name_input avatarUrl_input args now new_id tbl
     = profiles_upsert net_ok (Some uid)
         \<lparr>up_user_id = uid, up_name = or_null name_input,
          up_avatar_url = or_null (finalAvatarUrl args avatarUrl_input)\<rparr> now new_id tbl"
  by (simp add: upsertProfile_mutationFn_def)

lemma profiles_upsert_succeeds:
  "net_ok \<Longrightarrow> auth_uid = Some (up_user_id vals) \<Longrightarrow>
   (\<exists>r\<in>set tbl. user_id r = up_user_id vals) \<or> new_id \<notin> set (map row_id tbl) \<Longrightarrow>
   \<exists>tbl'. profiles_upsert net_ok auth_uid vals now new_id tbl = Inr tbl'"
  by (auto simp: profiles_upsert_def)

text \<open>
  C5. \<open>upsertProfile\<close> keeps at most one profile row per \<open>user_id\<close>. On a table with
  distinct \<open>user_id\<close>s a successful call leaves them distinct: without a row of the user
  it inserts one, otherwise it replaces the name and the avatar of that row (and the
  trigger refreshes \<open>updated_at\<close>). A second call for the same user succeeds when the
  store answers, and leaves exactly one row of the user, with the name and the avatar of
  the second call (an empty text is stored as null).
\<close>

theorem upsertProfile_one_row_per_user:
  "distinct (map user_id tbl) \<and>
   upsertProfile_mutationFn net_ok (Some uid) name1 avatar1 args1 now1 id1 tbl = Inr tbl1 \<longrightarrow>
     distinct (map user_id tbl1)
     \<and> ((\<forall>r\<in>set tbl. user_id r \<noteq> uid) \<longrightarrow>
          tbl1 = tbl @ [\<lparr>row_id = id1, user_id = uid, created_at = now1, updated_at = now1,
                          name = or_null name1,
                          avatar_url = or_null (finalAvatarUrl args1 avatar1)\<rparr>])
     \<and> ((\<exists>r\<in>set tbl. user_id r = uid) \<longrightarrow>
          tbl1 = map (\<lambda>r. if user_id r = uid
                           then r\<lparr>updated_at := now1, name := or_null name1,
                                  avatar_url := or_null (finalAvatarUrl args1 avatar1)\<rparr>
                           else r) tbl)
     \<and> (net_ok2 \<longrightarrow>
          (\<exists>tbl2. upsertProfile_mutationFn net_ok2 (Some uid) name2 avatar2 args2 now2 id2 tbl1
                    = Inr tbl2))
     \<and> (\<forall>tbl2. upsertProfile_mutationFn net_ok2 (Some uid) name2 avatar2 args2 now2 id2 tbl1
                  = Inr tbl2 \<longrightarrow>
           distinct (map user_id tbl2)
           \<and> length (filter (\<lambda>r. user_id r = uid) tbl2) = 1
           \<and> (\<forall>r\<in>set tbl2. user_id r = uid \<longrightarrow>
                 name r = or_null name2 \<and>
                 (name2 \<noteq> [] \<longrightarrow> name r = Some name2) \<and>
                 avatar_url r = or_null (finalAvatarUrl args2 avatar2)))"
proof (intro impI, elim conjE)
  let ?v1 = "\<lparr>up_user_id = uid, up_name = or_null name1,
              up_avatar_url = or_null (finalAvatarUrl args1 avatar1)\<rparr>"
  let ?v2 = "\<lparr>up_user_id = uid, up_name = or_null name2,
              up_avatar_url = or_null (finalAvatarUrl args2 avatar2)\<rparr>"
  assume d: "distinct (map user_id tbl)"
    and "upsertProfile_mutationFn net_ok (Some uid) name1 avatar1 args1 now1 id1 tbl = Inr tbl1"
  then have u1: "profiles_upsert net_ok (Some uid) ?v1 now1 id1 tbl = Inr tbl1"
    by (simp add: upsertProfile_Some)
  from profiles_upsert_one_row[OF d u1]
  have d1: "distinct (map user_id tbl1)"
    and one1: "\<exists>r. filter (\<lambda>r. user_id r = uid) tbl1 = [r]"
    by auto
  have rep: "replaced uid n a now = (\<lambda>r. if user_id r = uid
                           then r\<lparr>updated_at := now, name := n, avatar_url := a\<rparr>
                           else r)" for n a now
    by (simp add: fun_eq_iff replaced_def)
  from profiles_upsert_cases[OF u1]
  have ins: "(\<forall>r\<in>set tbl. user_id r \<noteq> uid) \<longrightarrow>
          tbl1 = tbl @ [\<lparr>row_id = id1, user_id = uid, created_at = now1, updated_at = now1,
                          name = or_null name1,
                          avatar_url = or_null (finalAvatarUrl args1 avatar1)\<rparr>]"
    by auto
  from profiles_upsert_cases[OF u1]
  have upd: "(\<exists>r\<in>set tbl. user_id r = uid) \<longrightarrow>
          tbl1 = map (\<lambda>r. if user_id r = uid
                           then r\<lparr>updated_at := now1, name := or_null name1,
                                  avatar_url := or_null (finalAvatarUrl args1 avatar1)\<rparr>
                           else r) tbl"
    unfolding rep[symmetric] by auto
  from one1 obtain r1 where "filter (\<lambda>r. user_id r = uid) tbl1 = [r1]" by blast
  then have "r1 \<in> set (filter (\<lambda>r. user_id r = uid) tbl1)" by simp
  then have ex1: "\<exists>r\<in>set tbl1. user_id r = up_user_id ?v2" by auto
  have again: "net_ok2 \<longrightarrow>
          (\<exists>tbl2. upsertProfile_mutationFn net_ok2 (Some uid) name2 avatar2 args2 now2 id2 tbl1
                    = Inr tbl2)"
    using profiles_upsert_succeeds[of net_ok2 "Some uid" ?v2 tbl1 id2 now2] ex1
    by (simp add: upsertProfile_Some)
  have two: "distinct (map user_id tbl2)
           \<and> length (filter (\<lambda>r. user_id r = uid) tbl2) = 1
           \<and> (\<forall>r\<in>set tbl2. user_id r = uid \<longrightarrow>
                 name r = or_null name2 \<and>
                 (name2 \<noteq> [] \<longrightarrow> name r = Some name2) \<and>
                 avatar_url r = or_null (finalAvatarUrl args2 avatar2))"
    if "upsertProfile_mutationFn net_ok2 (Some uid) name2 avatar2 args2 now2 id2 tbl1 = Inr tbl2"
    for tbl2
  proof -
    from that have u2: "profiles_upsert net_ok2 (Some uid) ?v2 now2 id2 tbl1 = Inr tbl2"
      by (simp add: upsertProfile_Some)
    from profiles_upsert_one_row[OF d1 u2]
    obtain r where d2: "distinct (map user_id tbl2)"
      and r: "filter (\<lambda>r. user_id r = uid) tbl2 = [r]" "name r = or_null name2"
        "avatar_url r = or_null (finalAvatarUrl args2 avatar2)"
      by auto
    have "r' = r" if "r' \<in> set tbl2" "user_id r' = uid" for r'
    proof -
      from that have "r' \<in> set (filter (\<lambda>r. user_id r = uid) tbl2)" by simp
      with r(1) show ?thesis by simp
    qed
    with d2 r show ?thesis by (auto simp: or_null_def)
  qed
  from d1 ins upd again two
  show "distinct (map user_id tbl1)
     \<and> ((\<forall>r\<in>set tbl. user_id r \<noteq> uid) \<longrightarrow>
          tbl1 = tbl @ [\<lparr>row_id = id1, user_id = uid, created_at = now1, updated_at = now1,
                          name = or_null name1,
                          avatar_url = or_null (finalAvatarUrl args1 avatar1)\<rparr>])
     \<and> ((\<exists>r\<in>set tbl. user_id r = uid) \<longrightarrow>
          tbl1 = map (\<lambda>r. if user_id r = uid
                           then r\<lparr>updated_at := now1, name := or_null name1,
                                  avatar_url := or_null (finalAvatarUrl args1 avatar1)\<rparr>
                           else r) tbl)
     \<and> (net_ok2 \<longrightarrow>
          (\<exists>tbl2. upsertProfile_mutationFn net_ok2 (Some uid) name2 avatar2 args2 now2 id2 tbl1
                    = Inr tbl2))
     \<and> (\<forall>tbl2. upsertProfile_mutationFn net_ok2 (Some uid) name2 avatar2 args2 now2 id2 tbl1
                  = Inr tbl2 \<longrightarrow>
           distinct (map user_id tbl2)
           \<and> length (filter (\<lambda>r. user_id r = uid) tbl2) = 1
           \<and> (\<forall>r\<in>set tbl2. user_id r = uid \<longrightarrow>
                 name r = or_null name2 \<and>
                 (name2 \<noteq> [] \<longrightarrow> name r = Some name2) \<and>
                 avatar_url r = or_null (finalAvatarUrl args2 avatar2)))"
    by blast
qed

lemmas upsert_defs =
  upsertProfile_mutationFn_def profiles_upsert_def finalAvatarUrl_def or_null_def
  auth_uid_is_user_id_def update_updated_at_column_def profiles_apply_set_def

lemma demo_upsert_1:
  "upsertProfile_mutationFn True (Some ''u1'') ''Ann'' [] None 7 ''p9'' demo_profiles
     = Inr demo_profiles_1"
  by (simp add: upsert_defs demo_profiles_def demo_profiles_1_def)

lemma demo_upsert_2:
  "upsertProfile_mutationFn True (Some ''u1'') ''Anna'' [] None 9 ''p10'' demo_profiles_1
     = Inr demo_profiles_2"
  by (simp add: upsert_defs demo_profiles_def demo_profiles_1_def demo_profiles_2_def)

theorem upsertProfile_one_row_per_user_witness:
  "distinct (map user_id demo_profiles)
   \<and> upsertProfile_mutationFn True (Some ''u1'') ''Ann'' [] None 7 ''p9'' demo_profiles
       = Inr demo_profiles_1
   \<and> upsertProfile_mutationFn True (Some ''u1'') ''Anna'' [] None 9 ''p10'' demo_profiles_1
       = Inr demo_profiles_2
   \<and> distinct (map user_id demo_profiles_2)
   \<and> length (filter (\<lambda>r. user_id r = ''u1'') demo_profiles_2) = 1
   \<and> demo_profiles_2 ! 1 \<in> set demo_profiles_2
   \<and> user_id (demo_profiles_2 ! 1) = ''u1''
   \<and> name (demo_profiles_2 ! 1) = Some ''Anna''
   \<and> demo_profiles_2
       = map (\<lambda>r. if user_id r = ''u1''
                   then r\<lparr>updated_at := 9, name := Some ''Anna'', avatar_url := None\<rparr>
                   else r) demo_profiles_1"
proof -
  have d: "distinct (map user_id demo_profiles)"
    by (simp add: demo_profiles_def)
  have d1: "distinct (map user_id demo_profiles_1)"
    by (simp add: demo_profiles_1_def demo_profiles_def)
  have new: "\<forall>r\<in>set demo_profiles. user_id r \<noteq> ''u1''"
    by (simp add: demo_profiles_def)
  have m: "demo_profiles_2 ! 1 \<in> set demo_profiles_2" "user_id (demo_profiles_2 ! 1) = ''u1''"
    "demo_profiles_1 ! 1 \<in> set demo_profiles_1" "user_id (demo_profiles_1 ! 1) = ''u1''"
    by (simp_all add: demo_profiles_2_def demo_profiles_1_def demo_profiles_def)
  have v: "or_null ''Anna'' = Some ''Anna''" "or_null (finalAvatarUrl None []) = None"
    by (simp_all add: or_null_def finalAvatarUrl_def)
  note t = upsertProfile_one_row_per_user
             [of demo_profiles True "''u1''" "''Ann''" "[]" None 7 "''p9''" demo_profiles_1
                 True "''Anna''" "[]" None 9 "''p10''"]
  note u = upsertProfile_one_row_per_user
             [of demo_profiles_1 True "''u1''" "''Anna''" "[]" None 9 "''p10''" demo_profiles_2
                 True "''Anna''" "[]" None 9 "''p10''"]
  from t d demo_upsert_1 demo_upsert_2
  have two: "distinct (map user_id demo_profiles_2)
        \<and> length (filter (\<lambda>r. user_id r = ''u1'') demo_profiles_2) = 1
        \<and> (\<forall>r\<in>set demo_profiles_2. user_id r = ''u1'' \<longrightarrow>
              name r = or_null ''Anna'' \<and> (''Anna'' \<noteq> [] \<longrightarrow> name r = Some ''Anna'') \<and>
              avatar_url r = or_null (finalAvatarUrl None []))"
    by blast
  with m(1,2) v(1) have nm: "name (demo_profiles_2 ! 1) = Some ''Anna''"
    by auto
  from u d1 demo_upsert_2 m(3,4)
  have "demo_profiles_2
       = map (\<lambda>r. if user_id r = ''u1''
                   then r\<lparr>updated_at := 9, name := or_null ''Anna'',
                          avatar_url := or_null (finalAvatarUrl None [])\<rparr>
                   else r) demo_profiles_1"
    by blast
  then have upd: "demo_profiles_2
       = map (\<lambda>r. if user_id r = ''u1''
                   then r\<lparr>updated_at := 9, name := Some ''Anna'', avatar_url := None\<rparr>
                   else r) demo_profiles_1"
    unfolding v .
  from d demo_upsert_1 demo_upsert_2 two m(1,2) nm upd
  show ?thesis by blast
qed

section \<open>The trigger on updates\<close>

lemma tasks_update_row:
  "updated_at (update_updated_at_column now (tasks_apply_set vals r)) = now
   \<and> row_id (update_updated_at_column now (tasks_apply_set vals r)) = row_id r
   \<and> user_id (update_updated_at_column now (tasks_apply_set vals r)) = user_id r
   \<and> created_at (update_updated_at_column now (tasks_apply_set vals r)) = created_at r
   \<and> title (update_updated_at_column now (tasks_apply_set vals r))
       = (case set_title vals of None \<Rightarrow> title r | Some v \<Rightarrow> v)
   \<and> description (update_updated_at_column now (tasks_apply_set vals r))
       = (case set_description vals of None \<Rightarrow> description r | Some v \<Rightarrow> v)
   \<and> status (update_updated_at_column now (tasks_apply_set vals r))
       = (case set_status vals of None \<Rightarrow> status r | Some v \<Rightarrow> v)"
  by (simp add: update_updated_at_column_def tasks_apply_set_def)

lemma profiles_update_row:
  "updated_at (update_updated_at_column now (profiles_apply_set vals r)) = now
   \<and> row_id (update_updated_at_column now (profiles_apply_set vals r)) = row_id r
   \<and> user_id (update_updated_at_column now (profiles_apply_set vals r)) = user_id r
   \<and> created_at (update_updated_at_column now (profiles_apply_set vals r)) = created_at r
   \<and> name (update_updated_at_column now (profiles_apply_set vals r))
       = (case set_name vals of None \<Rightarrow> name r | Some v \<Rightarrow> v)
   \<and> avatar_url (update_updated_at_column now (profiles_apply_set vals r))
       = (case set_avatar_url vals of None \<Rightarrow> avatar_url r | Some v \<Rightarrow> v)"
  by (simp add: update_updated_at_column_def profiles_apply_set_def)

lemma tasks_update_Inr:
  assumes "tasks_update net_ok auth_uid vals cond now tbl = Inr tbl'" "tasks_set_names_column vals"
  shows "tbl' = map (\<lambda>r. if auth_uid_is_user_id auth_uid r \<and> cond r
                          then update_updated_at_column now (tasks_apply_set vals r)
                          else r) tbl"
  using assms unfolding tasks_update_def by (simp split: if_splits)

lemma profiles_update_Inr:
  assumes "profiles_update net_ok auth_uid vals cond now tbl = Inr tbl'" "profiles_set_names_column vals"
  shows "tbl' = map (\<lambda>r. if auth_uid_is_user_id auth_uid r \<and> cond r
                          then update_updated_at_column now (profiles_apply_set vals r)
                          else r) tbl"
  using assms unfolding profiles_update_def by (simp split: if_splits)

text \<open>
  C9. On every successful update of a row of \<open>tasks\<close> or of \<open>profiles\<close> the store sets
  \<open>updated_at\<close> of the row to the current time, whatever value the update names for that
  column; \<open>id\<close>, \<open>user_id\<close> and \<open>created_at\<close> are as before; each other column
  has the value the update names for it, or is as before when the update does not name
  it. Rows that the update does not reach (not owned by the caller, or not meeting its
  condition) are as before. The update branch of the profile upsert does the same.
\<close>

theorem updated_at_refreshed_on_update:
  "(tasks_update net_ok auth_uid vals cond now tbl = Inr tbl' \<and> tasks_set_names_column vals \<longrightarrow>
      length tbl' = length tbl \<and>
      (\<forall>i<length tbl.
         (auth_uid_is_user_id auth_uid (tbl ! i) \<and> cond (tbl ! i) \<longrightarrow>
            updated_at (tbl' ! i) = now \<and>
            row_id (tbl' ! i) = row_id (tbl ! i) \<and>
            user_id (tbl' ! i) = user_id (tbl ! i) \<and>
            created_at (tbl' ! i) = created_at (tbl ! i) \<and>
            title (tbl' ! i) = (case set_title vals of None \<Rightarrow> title (tbl ! i) | Some v \<Rightarrow> v) \<and>
            description (tbl' ! i)
              = (case set_description vals of None \<Rightarrow> description (tbl ! i) | Some v \<Rightarrow> v) \<and>
            status (tbl' ! i) = (case set_status vals of None \<Rightarrow> status (tbl ! i) | Some v \<Rightarrow> v))
         \<and> (\<not> (auth_uid_is_user_id auth_uid (tbl ! i) \<and> cond (tbl ! i)) \<longrightarrow>
              tbl' ! i = tbl ! i)))
   \<and> (profiles_update net_ok auth_uid pvals pcond now ptbl = Inr ptbl'
        \<and> profiles_set_names_column pvals \<longrightarrow>
      length ptbl' = length ptbl \<and>
      (\<forall>i<length ptbl.
         (auth_uid_is_user_id auth_uid (ptbl ! i) \<and> pcond (ptbl ! i) \<longrightarrow>
            updated_at (ptbl' ! i) = now \<and>
            row_id (ptbl' ! i) = row_id (ptbl ! i) \<and>
            user_id (ptbl' ! i) = user_id (ptbl ! i) \<and>
            created_at (ptbl' ! i) = created_at (ptbl ! i) \<and>
            name (ptbl' ! i) = (case set_name pvals of None \<Rightarrow> name (ptbl ! i) | Some v \<Rightarrow> v) \<and>
            avatar_url (ptbl' ! i)
              = (case set_avatar_url pvals of None \<Rightarrow> avatar_url (ptbl ! i) | Some v \<Rightarrow> v))
         \<and> (\<not> (auth_uid_is_user_id auth_uid (ptbl ! i) \<and> pcond (ptbl ! i)) \<longrightarrow>
              ptbl' ! i = ptbl ! i)))
   \<and> (profiles_upsert net_ok auth_uid uvals now new_id utbl = Inr utbl'
        \<and> (\<exists>r\<in>set utbl. user_id r = up_user_id uvals) \<longrightarrow>
      utbl' = map (\<lambda>r. if user_id r = up_user_id uvals
                        then r\<lparr>updated_at := now, name := up_name uvals,
                               avatar_url := up_avatar_url uvals\<rparr>
                        else r) utbl)"
proof (intro conjI impI)
  assume "tasks_update net_ok auth_uid vals cond now tbl = Inr tbl' \<and> tasks_set_names_column vals"
  then have t: "tbl' = map (\<lambda>r. if auth_uid_is_user_id auth_uid r \<and> cond r
                          then update_updated_at_column now (tasks_apply_set vals r)
                          else r) tbl"
    using tasks_update_Inr by blast
  show "length tbl' = length tbl" by (simp add: t)
  show "\<forall>i<length tbl.
         (auth_uid_is_user_id auth_uid (tbl ! i) \<and> cond (tbl ! i) \<longrightarrow>
            updated_at (tbl' ! i) = now \<and>
            row_id (tbl' ! i) = row_id (tbl ! i) \<and>
            user_id (tbl' ! i) = user_id (tbl ! i) \<and>
            created_at (tbl' ! i) = created_at (tbl ! i) \<and>
            title (tbl' ! i) = (case set_title vals of None \<Rightarrow> title (tbl ! i) | Some v \<Rightarrow> v) \<and>
            description (tbl' ! i)
              = (case set_description vals of None \<Rightarrow> description (tbl ! i) | Some v \<Rightarrow> v) \<and>
            status (tbl' ! i) = (case set_status vals of None \<Rightarrow> status (tbl ! i) | Some v \<Rightarrow> v))
         \<and> (\<not> (auth_uid_is_user_id auth_uid (tbl ! i) \<and> cond (tbl ! i)) \<longrightarrow>
              tbl' ! i = tbl ! i)"
    unfolding t using tasks_update_row by simp
next
  assume "profiles_update net_ok auth_uid pvals pcond now ptbl = Inr ptbl'
        \<and> profiles_set_names_column pvals"
  then have t: "ptbl' = map (\<lambda>r. if auth_uid_is_user_id auth_uid r \<and> pcond r
                          then update_updated_at_column now (profiles_apply_set pvals r)
                          else r) ptbl"
    using profiles_update_Inr by blast
  show "length ptbl' = length ptbl" by (simp add: t)
  show "\<forall>i<length ptbl.
         (auth_uid_is_user_id auth_uid (ptbl ! i) \<and> pcond (ptbl ! i) \<longrightarrow>
            updated_at (ptbl' ! i) = now \<and>
            row_id (ptbl' ! i) = row_id (ptbl ! i) \<and>
            user_id (ptbl' ! i) = user_id (ptbl ! i) \<and>
            created_at (ptbl' ! i) = created_at (ptbl ! i) \<and>
            name (ptbl' ! i) = (case set_name pvals of None \<Rightarrow> name (ptbl ! i) | Some v \<Rightarrow> v) \<and>
            avatar_url (ptbl' ! i)
              = (case set_avatar_url pvals of None \<Rightarrow> avatar_url (ptbl ! i) | Some v \<Rightarrow> v))
         \<and> (\<not> (auth_uid_is_user_id auth_uid (ptbl ! i) \<and> pcond (ptbl ! i)) \<longrightarrow>
              ptbl' ! i = ptbl ! i)"
    unfolding t using profiles_update_row by simp
next
  assume a: "profiles_upsert net_ok auth_uid uvals now new_id utbl = Inr utbl'
        \<and> (\<exists>r\<in>set utbl. user_id r = up_user_id uvals)"
  have rep: "replaced (up_user_id uvals) (up_name uvals) (up_avatar_url uvals) now
      = (\<lambda>r. if user_id r = up_user_id uvals
              then r\<lparr>updated_at := now, name := up_name uvals,
                     avatar_url := up_avatar_url uvals\<rparr>
              else r)"
    by (simp add: fun_eq_iff replaced_def)
  from a profiles_upsert_cases[of net_ok auth_uid uvals now new_id utbl utbl']
  show "utbl' = map (\<lambda>r. if user_id r = up_user_id uvals
                        then r\<lparr>updated_at := now, name := up_name uvals,
                               avatar_url := up_avatar_url uvals\<rparr>
                        else r) utbl"
    unfolding rep by blast
qed

lemma demo_touch:
  "tasks_update True (Some ''u1'') touch_t1 (\<lambda>r. row_id r = ''t1'') 9 demo_tasks
     = Inr demo_tasks_touched"
  by (simp add: tasks_update_def tasks_set_names_column_def touch_t1_def demo_tasks_def
        demo_tasks_touched_def auth_uid_is_user_id_def update_updated_at_column_def
        tasks_apply_set_def)

lemma demo_rename:
  "profiles_update True (Some ''u2'') rename_bo (\<lambda>r. True) 9 demo_profiles
     = Inr demo_profiles_renamed"
  by (simp add: profiles_update_def profiles_set_names_column_def rename_bo_def
        demo_profiles_def demo_profiles_renamed_def auth_uid_is_user_id_def
        update_updated_at_column_def profiles_apply_set_def)

theorem updated_at_refreshed_on_update_witness:
  "tasks_update True (Some ''u1'') touch_t1 (\<lambda>r. row_id r = ''t1'') 9 demo_tasks
     = Inr demo_tasks_touched
   \<and> tasks_set_names_column touch_t1 \<and> set_updated_at touch_t1 = Some 0
   \<and> auth_uid_is_user_id (Some ''u1'') (demo_tasks ! 0) \<and> row_id (demo_tasks ! 0) = ''t1''
   \<and> updated_at (demo_tasks_touched ! 0) = 9
   \<and> title (demo_tasks_touched ! 0) = title (demo_tasks ! 0)
   \<and> created_at (demo_tasks_touched ! 0) = created_at (demo_tasks ! 0)
   \<and> demo_tasks_touched ! 1 = demo_tasks ! 1
   \<and> profiles_update True (Some ''u2'') rename_bo (\<lambda>r. True) 9 demo_profiles
       = Inr demo_profiles_renamed
   \<and> profiles_set_names_column rename_bo \<and> set_updated_at rename_bo = Some 0
   \<and> updated_at (demo_profiles_renamed ! 0) = 9
   \<and> avatar_url (demo_profiles_renamed ! 0) = avatar_url (demo_profiles ! 0)
   \<and> profiles_upsert True (Some ''u1'')
         \<lparr>up_user_id = ''u1'', up_name = Some ''Anna'', up_avatar_url = None\<rparr> 9 ''p10''
         demo_profiles_1 = Inr demo_profiles_2
   \<and> demo_profiles_2
       = map (\<lambda>r. if user_id r = ''u1''
                   then r\<lparr>updated_at := 9, name := Some ''Anna'', avatar_url := None\<rparr>
                   else r) demo_profiles_1"
proof -
  note q = updated_at_refreshed_on_update
             [where net_ok = True and auth_uid = "Some ''u1''" and now = 9
                and uvals = "\<lparr>up_user_id = ''u1'', up_name = Some ''Anna'',
                              up_avatar_url = None\<rparr>"
                and new_id = "''p10''" and utbl = demo_profiles_1 and utbl' = demo_profiles_2,
              THEN conjunct2, THEN conjunct2]
  have ups: "profiles_upsert True (Some ''u1'')
         \<lparr>up_user_id = ''u1'', up_name = Some ''Anna'', up_avatar_url = None\<rparr> 9 ''p10''
         demo_profiles_1 = Inr demo_profiles_2"
    by (simp add: upsert_defs demo_profiles_def demo_profiles_1_def demo_profiles_2_def)
  have ex: "\<exists>r\<in>set demo_profiles_1. user_id r = ''u1''"
    by (simp add: demo_profiles_1_def)
  from q ups ex
  have upd: "demo_profiles_2
       = map (\<lambda>r. if user_id r = ''u1''
                   then r\<lparr>updated_at := 9, name := Some ''Anna'', avatar_url := None\<rparr>
                   else r) demo_profiles_1"
    by (simp cong: if_cong)
  note t = updated_at_refreshed_on_update
             [of True "Some ''u1''" touch_t1 "\<lambda>r. row_id r = ''t1''" 9 demo_tasks
                 demo_tasks_touched rename_bo "\<lambda>r. True" demo_profiles demo_profiles_renamed,
              THEN conjunct1]
  note p = updated_at_refreshed_on_update
             [of True "Some ''u2''" touch_t1 "\<lambda>r. row_id r = ''t1''" 9 demo_tasks
                 demo_tasks_touched rename_bo "\<lambda>r. True" demo_profiles demo_profiles_renamed,
              THEN conjunct2, THEN conjunct1]
  have n: "tasks_set_names_column touch_t1" "set_updated_at touch_t1 = Some 0"
    "set_title touch_t1 = None"
    by (simp_all add: tasks_set_names_column_def touch_t1_def)
  have o: "auth_uid_is_user_id (Some ''u1'') (demo_tasks ! 0)" "row_id (demo_tasks ! 0) = ''t1''"
    "\<not> (auth_uid_is_user_id (Some ''u1'') (demo_tasks ! 1) \<and> row_id (demo_tasks ! 1) = ''t1'')"
    "0 < length demo_tasks" "1 < length demo_tasks"
    by (simp_all add: demo_tasks_def auth_uid_is_user_id_def)
  from t demo_touch n(1)
  have all: "\<forall>i<length demo_tasks.
         (auth_uid_is_user_id (Some ''u1'') (demo_tasks ! i) \<and> row_id (demo_tasks ! i) = ''t1'' \<longrightarrow>
            updated_at (demo_tasks_touched ! i) = 9 \<and>
            row_id (demo_tasks_touched ! i) = row_id (demo_tasks ! i) \<and>
            user_id (demo_tasks_touched ! i) = user_id (demo_tasks ! i) \<and>
            created_at (demo_tasks_touched ! i) = created_at (demo_tasks ! i) \<and>
            title (demo_tasks_touched ! i)
              = (case set_title touch_t1 of None \<Rightarrow> title (demo_tasks ! i) | Some v \<Rightarrow> v) \<and>
            description (demo_tasks_touched ! i)
              = (case set_description touch_t1 of None \<Rightarrow> description (demo_tasks ! i) | Some v \<Rightarrow> v) \<and>
            status (demo_tasks_touched ! i)
              = (case set_status touch_t1 of None \<Rightarrow> status (demo_tasks ! i) | Some v \<Rightarrow> v))
         \<and> (\<not> (auth_uid_is_user_id (Some ''u1'') (demo_tasks ! i) \<and> row_id (demo_tasks ! i) = ''t1'') \<longrightarrow>
              demo_tasks_touched ! i = demo_tasks ! i)"
    by blast
  from all[rule_format, OF o(4)] o(1,2) n(3)
  have a: "updated_at (demo_tasks_touched ! 0) = 9"
    "title (demo_tasks_touched ! 0) = title (demo_tasks ! 0)"
    "created_at (demo_tasks_touched ! 0) = created_at (demo_tasks ! 0)"
    by simp_all
  from all[rule_format, OF o(5)] o(3)
  have b: "demo_tasks_touched ! 1 = demo_tasks ! 1"
    by blast
  have pn: "profiles_set_names_column rename_bo" "set_updated_at rename_bo = Some 0"
    "set_avatar_url rename_bo = None"
    by (simp_all add: profiles_set_names_column_def rename_bo_def)
  have po: "auth_uid_is_user_id (Some ''u2'') (demo_profiles ! 0)" "0 < length demo_profiles"
    by (simp_all add: demo_profiles_def auth_uid_is_user_id_def)
  from p demo_rename pn(1)
  have pall: "\<forall>i<length demo_profiles.
         (auth_uid_is_user_id (Some ''u2'') (demo_profiles ! i) \<and> True \<longrightarrow>
            updated_at (demo_profiles_renamed ! i) = 9 \<and>
            row_id (demo_profiles_renamed ! i) = row_id (demo_profiles ! i) \<and>
            user_id (demo_profiles_renamed ! i) = user_id (demo_profiles ! i) \<and>
            created_at (demo_profiles_renamed ! i) = created_at (demo_profiles ! i) \<and>
            name (demo_profiles_renamed ! i)
              = (case set_name rename_bo of None \<Rightarrow> name (demo_profiles ! i) | Some v \<Rightarrow> v) \<and>
            avatar_url (demo_profiles_renamed ! i)
              = (case set_avatar_url rename_bo of None \<Rightarrow> avatar_url (demo_profiles ! i)
                 | Some v \<Rightarrow> v))
         \<and> (\<not> (auth_uid_is_user_id (Some ''u2'') (demo_profiles ! i) \<and> True) \<longrightarrow>
              demo_profiles_renamed ! i = demo_profiles ! i)"
    by blast
  from pall[rule_format, OF po(2)] po(1) pn(3)
  have c: "updated_at (demo_profiles_renamed ! 0) = 9"
    "avatar_url (demo_profiles_renamed ! 0) = avatar_url (demo_profiles ! 0)"
    by simp_all
  from demo_touch n(1,2) o(1,2) a b demo_rename pn(1,2) c ups upd
  show ?thesis by blast
qed

section \<open>Uploading an avatar\<close>

text \<open>
  The handler of the other profile page (\<open>part_002\<close>) checks the file first: a file of
  more than 5 MiB, or one whose type does not start with \<open>image/\<close>, sends no request and
  sets an error text, one for the size and another for the type.
\<close>

lemma avatar_onChange_part_002_validates:
  assumes "5 * 1024 * 1024 < file_size f \<or> \<not> startsWith (file_type f) ''image/''"
  shows "requests (avatar_onChange_part_002 (Some f) (Some uid) now upload_ok storage_url st)
           = requests st"
    and "uploadError (avatar_onChange_part_002 (Some f) (Some uid) now upload_ok storage_url st)
           = Some (if 5 * 1024 * 1024 < file_size f
                   then ''Please choose an image smaller than 5MB.''
                   else ''Please upload an image file (PNG, JPG, etc.).'')"
  using assms by (auto simp: avatar_onChange_part_002_def Let_def)

lemma encodeURI_space: "encodeURI ''my file.png'' = ''my%20file.png''"
  by (simp add: encodeURI_def encodeURI_char_def uri_unescaped_def hex2_def)

lemma avatar_onChange_sends_any_file:
  "requests (avatar_onChange (Some f) (Some uid) now upload_ok upsert_ok storage_url st)
     \<noteq> requests st"
  by (simp add: avatar_onChange_def Let_def)

text \<open>
  C8 (a file of more than 5 MiB, or one whose type is no image type, is rejected before
  any request is sent, with an error that tells the two apart) does not hold of the
  handler of \<open>Profile.tsx\<close>, which checks neither the size nor the type of the file.
  Given an image of 10 MiB, or a text file, it sets no error and sends the upload to the
  storage service, then the profile upsert.
\<close>

theorem avatar_onChange_uploads_unchecked:
  "file_size big_png = 10 * 1024 * 1024
   \<and> avatar_onChange (Some big_png) (Some ''u1'') 1700 True True ''https://s'' fresh_page
       = \<lparr>uploadError = None, isUploadingAvatar = False,
          avatarUrl = ''https://s/object/public/avatars/u1/u1-1700.png'',
          requests = [StorageUpload ''u1/u1-1700.png'',
                      ProfilesUpsert ''https://s/object/public/avatars/u1/u1-1700.png'']\<rparr>
   \<and> \<not> startsWith (file_type notes_txt) ''image/''
   \<and> avatar_onChange (Some notes_txt) (Some ''u1'') 1700 True True ''https://s'' fresh_page
       = \<lparr>uploadError = None, isUploadingAvatar = False,
          avatarUrl = ''https://s/object/public/avatars/u1/u1-1700.txt'',
          requests = [StorageUpload ''u1/u1-1700.txt'',
                      ProfilesUpsert ''https://s/object/public/avatars/u1/u1-1700.txt'']\<rparr>"
  by (simp add: avatar_onChange_def Let_def big_png_def notes_txt_def fresh_page_def split_dot_pop_def
        getPublicUrl_def encodeURI_def encodeURI_char_def uri_unescaped_def startsWith_def)

end
